theory Spec2Isabelle
  imports Complex_Main
begin

section \<open>Parabolic ramps and curves of the ramp optimizer (ramp.cpp)\<close>

text \<open>
  The development embeds the three entities of
  \<^verbatim>\<open>plugins/rplanners/rampoptimizer/ramp.cpp\<close>: a constant-acceleration
  \<^verbatim>\<open>Ramp\<close>, a \<^verbatim>\<open>ParabolicCurve\<close> (a sequence of ramps over one axis) and a
  \<^verbatim>\<open>ParabolicCurvesND\<close> (one curve per degree of freedom).

  Conventions of the embedding.
  \<^item> The C++ type \<^verbatim>\<open>Real\<close> (a double) is read as the mathematical reals: every
    arithmetic expression of the source is the same expression over \<^typ>\<open>real\<close>.
    Rounding, infinities and NaN are outside the model.
  \<^item> A failed \<^verbatim>\<open>BOOST_ASSERT\<close> or \<^verbatim>\<open>RAMP_OPTIM_ASSERT\<close> is the value
    \<open>Inl AssertionFailed\<close>; an access outside a \<^verbatim>\<open>std::vector\<close> (undefined
    behaviour in C++) is the value \<open>Inl OutOfRange\<close>.
  \<^item> Member functions that mutate \<^verbatim>\<open>*this\<close> take the object and return the
    updated object; output reference parameters are returned as results.
  \<^item> The header \<^verbatim>\<open>ramp.h\<close> is not among the sources. Its constants
    \<^verbatim>\<open>epsilon\<close> and \<^verbatim>\<open>inf\<close> are parameters \<open>eps\<close> and \<open>infty\<close> of the
    functions that use them.
\<close>

datatype error = AssertionFailed | OutOfRange

subsection \<open>Helpers declared in ramp.h\<close>

text \<open>
  Modelled from the spec: \<^verbatim>\<open>FuzzyZero\<close>, \<^verbatim>\<open>FuzzyEquals\<close>, \<^verbatim>\<open>Min\<close> and
  \<^verbatim>\<open>Max\<close> are declared in ramp.h, which is missing. The glossary reads
  "numeric equality up to a small tolerance epsilon", and the testable
  properties reject a difference "beyond tolerance epsilon": a difference of
  at most the tolerance is accepted.
\<close>

definition FuzzyZero :: "real \<Rightarrow> real \<Rightarrow> bool" where
  "FuzzyZero x eps = (\<bar>x\<bar> \<le> eps)"

definition FuzzyEquals :: "real \<Rightarrow> real \<Rightarrow> real \<Rightarrow> bool" where
  "FuzzyEquals x y eps = (\<bar>x - y\<bar> \<le> eps)"

definition Min2 :: "real \<Rightarrow> real \<Rightarrow> real" where
  "Min2 x y = (if x < y then x else y)"

definition Max2 :: "real \<Rightarrow> real \<Rightarrow> real" where
  "Max2 x y = (if x > y then x else y)"

subsection \<open>Ramp\<close>

record Ramp =
  v0 :: real
  a :: real
  duration :: real
  x0 :: real
  v1 :: real
  d :: real
  x1 :: real

text \<open>\<^verbatim>\<open>Ramp::Ramp(v0_, a_, dur_, x0_)\<close>\<close>

definition Ramp_ctor :: "real \<Rightarrow> real \<Rightarrow> real \<Rightarrow> real \<Rightarrow> real \<Rightarrow> error + Ramp" where
  "Ramp_ctor eps v0' a' dur' x0' =
     (if \<not> dur' \<ge> - eps then Inl AssertionFailed
      else Inr \<lparr> Ramp.v0 = v0', Ramp.a = a', Ramp.duration = dur', Ramp.x0 = x0',
                 Ramp.v1 = v0' + (a' * dur'),
                 Ramp.d = dur' * (v0' + 0.5 * a' * dur'),
                 Ramp.x1 = x0' + dur' * (v0' + 0.5 * a' * dur') \<rparr>)"

text \<open>\<^verbatim>\<open>Ramp::Initialize\<close> overwrites every field of the receiver.\<close>

definition Ramp_Initialize :: "real \<Rightarrow> Ramp \<Rightarrow> real \<Rightarrow> real \<Rightarrow> real \<Rightarrow> real \<Rightarrow> error + Ramp" where
  "Ramp_Initialize eps r v0' a' dur' x0' =
     (if \<not> dur' \<ge> - eps then Inl AssertionFailed
      else Inr (r\<lparr> Ramp.v0 := v0', Ramp.a := a', Ramp.duration := dur', Ramp.x0 := x0',
                   Ramp.v1 := v0' + (a' * dur'),
                   Ramp.d := dur' * (v0' + 0.5 * a' * dur'),
                   Ramp.x1 := x0' + dur' * (v0' + 0.5 * a' * dur') \<rparr>))"

text \<open>\<^verbatim>\<open>Ramp::EvalPos\<close> and \<^verbatim>\<open>Ramp::EvalVel\<close>\<close>

definition Ramp_EvalPos :: "real \<Rightarrow> Ramp \<Rightarrow> real \<Rightarrow> error + real" where
  "Ramp_EvalPos eps r t =
     (if \<not> t \<ge> - eps then Inl AssertionFailed
      else if \<not> t \<le> Ramp.duration r + eps then Inl AssertionFailed
      else if t \<le> 0 then Inr (Ramp.x0 r)
      else if t \<ge> Ramp.duration r then Inr (Ramp.x1 r)
      else Inr (t * (Ramp.v0 r + 0.5 * Ramp.a r * t) + Ramp.x0 r))"

definition Ramp_EvalVel :: "real \<Rightarrow> Ramp \<Rightarrow> real \<Rightarrow> error + real" where
  "Ramp_EvalVel eps r t =
     (if \<not> t \<ge> - eps then Inl AssertionFailed
      else if \<not> t \<le> Ramp.duration r + eps then Inl AssertionFailed
      else if t \<le> 0 then Inr (Ramp.v0 r)
      else if t \<ge> Ramp.duration r then Inr (Ramp.v1 r)
      else Inr (Ramp.v0 r + (Ramp.a r * t)))"

text \<open>\<^verbatim>\<open>Ramp::GetPeaks(bmin, bmax)\<close>: the result is the pair \<open>(bmin, bmax)\<close>.\<close>

definition Ramp_GetPeaks :: "real \<Rightarrow> Ramp \<Rightarrow> error + (real \<times> real)" where
  "Ramp_GetPeaks eps r =
     (if FuzzyZero (Ramp.a r) eps then
        (if Ramp.v0 r > 0 then Inr (Ramp.x0 r, Ramp.x1 r)
         else Inr (Ramp.x1 r, Ramp.x0 r))
      else
        (let (bmin, bmax) = (if Ramp.a r > 0 then (Ramp.x0 r, Ramp.x1 r)
                             else (Ramp.x1 r, Ramp.x0 r));
             tDeflection = - Ramp.v0 r / Ramp.a r
         in if (tDeflection \<le> 0) \<or> (tDeflection \<ge> Ramp.duration r) then Inr (bmin, bmax)
            else (case Ramp_EvalPos eps r tDeflection of
                    Inl e \<Rightarrow> Inl e
                  | Inr xDeflection \<Rightarrow> Inr (Min2 bmin xDeflection, Max2 bmax xDeflection))))"

text \<open>\<^verbatim>\<open>Ramp::UpdateDuration\<close>\<close>

definition Ramp_UpdateDuration :: "real \<Rightarrow> Ramp \<Rightarrow> real \<Rightarrow> error + Ramp" where
  "Ramp_UpdateDuration eps r newDuration =
     (if \<not> newDuration \<ge> - eps then Inl AssertionFailed
      else let nd = (if newDuration < 0 then 0 else newDuration)
           in Inr (r\<lparr> Ramp.duration := nd,
                        Ramp.v1 := Ramp.v0 r + (Ramp.a r * nd),
                        Ramp.d := nd * (Ramp.v0 r + 0.5 * Ramp.a r * nd),
                        Ramp.x1 := Ramp.x0 r + nd * (Ramp.v0 r + 0.5 * Ramp.a r * nd) \<rparr>))"

subsection \<open>ParabolicCurve\<close>

record ParabolicCurve =
  ramps :: "Ramp list"
  switchpointsList :: "real list"
  x0 :: real
  x1 :: real
  d :: real
  duration :: real
  v0 :: real
  v1 :: real

text \<open>
  Modelled from the spec: \<^verbatim>\<open>ParabolicCurve::IsEmpty\<close> is declared in ramp.h, which
  is missing; the spec reads "fails if the argument curve is empty" where the
  source asserts \<^verbatim>\<open>!curve.IsEmpty()\<close>, and an empty curve is one without ramps.
\<close>

definition IsEmpty :: "ParabolicCurve \<Rightarrow> bool" where
  "IsEmpty c = (ParabolicCurve.ramps c = [])"

text \<open>
  \<^verbatim>\<open>ParabolicCurve::SetInitialValue(newx0)\<close>. The loop over the ramps writes the
  running position into \<^verbatim>\<open>ramps[i].x0\<close> and nothing else of the ramp.
\<close>

fun SetInitialValue_loop :: "real \<Rightarrow> Ramp list \<Rightarrow> Ramp list" where
  "SetInitialValue_loop newx0 [] = []"
| "SetInitialValue_loop newx0 (r # rs) =
     r\<lparr>Ramp.x0 := newx0\<rparr> # SetInitialValue_loop (newx0 + Ramp.d r) rs"

definition SetInitialValue :: "real \<Rightarrow> ParabolicCurve \<Rightarrow> ParabolicCurve" where
  "SetInitialValue newx0 c =
     (let c1 = c\<lparr>ParabolicCurve.x0 := newx0\<rparr>;
          c2 = c1\<lparr>ParabolicCurve.ramps := SetInitialValue_loop newx0 (ParabolicCurve.ramps c1)\<rparr>
      in c2\<lparr>ParabolicCurve.x1 := ParabolicCurve.x0 c2 + ParabolicCurve.d c2\<rparr>)"

text \<open>
  The loop shared by the constructor, \<^verbatim>\<open>Append\<close> and \<^verbatim>\<open>Initialize\<close>: push the
  ramp, add its displacement and duration, push the new cumulative time. (The
  constructor and \<^verbatim>\<open>Initialize\<close> read \<^verbatim>\<open>ramps[i].duration\<close>, \<^verbatim>\<open>Append\<close> reads
  \<^verbatim>\<open>ramps.back().duration\<close>; in the first two the vector starts empty, so both
  are the ramp just pushed.)
\<close>

fun push_ramps :: "Ramp list \<Rightarrow> ParabolicCurve \<Rightarrow> ParabolicCurve" where
  "push_ramps [] c = c"
| "push_ramps (r # rs) c =
     (let c1 = c\<lparr>ParabolicCurve.ramps := ParabolicCurve.ramps c @ [r]\<rparr>;
          c2 = c1\<lparr>ParabolicCurve.d := ParabolicCurve.d c1 + Ramp.d (last (ParabolicCurve.ramps c1))\<rparr>;
          c3 = c2\<lparr>ParabolicCurve.duration :=
                     ParabolicCurve.duration c2 + Ramp.duration (last (ParabolicCurve.ramps c2))\<rparr>;
          c4 = c3\<lparr>ParabolicCurve.switchpointsList :=
                     ParabolicCurve.switchpointsList c3 @ [ParabolicCurve.duration c3]\<rparr>
      in push_ramps rs c4)"

text \<open>
  \<^verbatim>\<open>ParabolicCurve::ParabolicCurve(rampsIn)\<close>. The fields \<^verbatim>\<open>x0\<close> and \<^verbatim>\<open>x1\<close> of
  the fresh object are written only by the closing \<^verbatim>\<open>SetInitialValue\<close>; the
  record starts them at \<open>0\<close>.
\<close>

definition ParabolicCurve_ctor :: "Ramp list \<Rightarrow> error + ParabolicCurve" where
  "ParabolicCurve_ctor rampsIn =
     (if \<not> (rampsIn \<noteq> []) then Inl AssertionFailed
      else
        let c0 = \<lparr> ParabolicCurve.ramps = [], ParabolicCurve.switchpointsList = [0],
                   ParabolicCurve.x0 = 0, ParabolicCurve.x1 = 0,
                   ParabolicCurve.d = 0, ParabolicCurve.duration = 0,
                   ParabolicCurve.v0 = 0, ParabolicCurve.v1 = 0 \<rparr>;
            c1 = push_ramps rampsIn c0;
            c2 = c1\<lparr>ParabolicCurve.v0 := Ramp.v0 (hd rampsIn)\<rparr>;
            c3 = c2\<lparr>ParabolicCurve.v1 := Ramp.v1 (last rampsIn)\<rparr>
        in Inr (SetInitialValue (Ramp.x0 (rampsIn ! 0)) c3))"

text \<open>
  \<^verbatim>\<open>ParabolicCurve::Initialize(rampsIn)\<close>. There is no emptiness check: on an
  empty vector the first read, \<^verbatim>\<open>rampsIn.front()\<close>, is outside the vector.
\<close>

definition ParabolicCurve_Initialize :: "ParabolicCurve \<Rightarrow> Ramp list \<Rightarrow> error + ParabolicCurve" where
  "ParabolicCurve_Initialize c rampsIn =
     (let c0 = c\<lparr> ParabolicCurve.ramps := [], ParabolicCurve.switchpointsList := [] \<rparr>;
          c1 = c0\<lparr> ParabolicCurve.d := 0, ParabolicCurve.duration := 0 \<rparr>;
          c2 = c1\<lparr> ParabolicCurve.switchpointsList :=
                      ParabolicCurve.switchpointsList c1 @ [ParabolicCurve.duration c1] \<rparr>
      in if rampsIn = [] then Inl OutOfRange
         else
           let c3 = c2\<lparr>ParabolicCurve.v0 := Ramp.v0 (hd rampsIn)\<rparr>;
               c4 = c3\<lparr>ParabolicCurve.v1 := Ramp.v1 (last rampsIn)\<rparr>;
               c5 = push_ramps rampsIn c4
           in Inr (SetInitialValue (Ramp.x0 (rampsIn ! 0)) c5))"

text \<open>\<^verbatim>\<open>ParabolicCurve::Append(curve)\<close>\<close>

definition Append :: "ParabolicCurve \<Rightarrow> ParabolicCurve \<Rightarrow> error + ParabolicCurve" where
  "Append c curve =
     (if \<not> (\<not> IsEmpty curve) then Inl AssertionFailed
      else
        let c1 = (if length (ParabolicCurve.ramps c) = 0
                  then c\<lparr> ParabolicCurve.d := 0, ParabolicCurve.duration := 0,
                          ParabolicCurve.switchpointsList := ParabolicCurve.switchpointsList c @ [0],
                          ParabolicCurve.x0 := Ramp.x0 (ParabolicCurve.ramps curve ! 0) \<rparr>
                  else c);
            c2 = push_ramps (ParabolicCurve.ramps curve) c1;
            c3 = c2\<lparr>ParabolicCurve.v1 := ParabolicCurve.v1 curve\<rparr>
        in Inr (SetInitialValue (ParabolicCurve.x0 c3) c3))"

text \<open>\<^verbatim>\<open>ParabolicCurve::Reset\<close>\<close>

definition Reset :: "ParabolicCurve \<Rightarrow> ParabolicCurve" where
  "Reset c = c\<lparr> ParabolicCurve.x0 := 0, ParabolicCurve.x1 := 0, ParabolicCurve.duration := 0,
                ParabolicCurve.d := 0, ParabolicCurve.v0 := 0, ParabolicCurve.v1 := 0,
                ParabolicCurve.switchpointsList := [], ParabolicCurve.ramps := [] \<rparr>"

text \<open>
  \<^verbatim>\<open>ParabolicCurve::FindRampIndex(t, index, remainder)\<close>. The scan keeps the
  counter \<^verbatim>\<open>index\<close>, which is also the position of the iterator \<^verbatim>\<open>it\<close>: it
  advances while \<^verbatim>\<open>it != end() && t > *it\<close>.
\<close>

fun FindRampIndex_scan :: "real \<Rightarrow> real list \<Rightarrow> nat \<Rightarrow> nat" where
  "FindRampIndex_scan t [] index = index"
| "FindRampIndex_scan t (s # rest) index =
     (if t > s then FindRampIndex_scan t rest (index + 1) else index)"

definition FindRampIndex :: "real \<Rightarrow> ParabolicCurve \<Rightarrow> real \<Rightarrow> error + (int \<times> real)" where
  "FindRampIndex eps c t =
     (if \<not> t \<ge> - eps then Inl AssertionFailed
      else if \<not> t \<le> ParabolicCurve.duration c + eps then Inl AssertionFailed
      else if t < eps then Inr (0, 0)
      else if t > ParabolicCurve.duration c - eps then
        (if ParabolicCurve.ramps c = [] then Inl OutOfRange
         else Inr (int (length (ParabolicCurve.ramps c)) - 1,
                   Ramp.duration (last (ParabolicCurve.ramps c))))
      else
        let index = FindRampIndex_scan t (ParabolicCurve.switchpointsList c) 0
        in if \<not> index < length (ParabolicCurve.switchpointsList c) then Inl AssertionFailed
           else if index = 0 then Inl OutOfRange
           else Inr (int index - 1, t - ParabolicCurve.switchpointsList c ! (index - 1)))"

text \<open>
  \<^verbatim>\<open>ParabolicCurve::EvalPos\<close> and \<^verbatim>\<open>ParabolicCurve::EvalVel\<close>; \<^verbatim>\<open>ramps[index]\<close>
  is guarded by the bounds of the vector.
\<close>

definition ParabolicCurve_EvalPos :: "real \<Rightarrow> ParabolicCurve \<Rightarrow> real \<Rightarrow> error + real" where
  "ParabolicCurve_EvalPos eps c t =
     (if \<not> t \<ge> - eps then Inl AssertionFailed
      else if \<not> t \<le> ParabolicCurve.duration c + eps then Inl AssertionFailed
      else if t \<le> 0 then Inr (ParabolicCurve.x0 c)
      else if t \<ge> ParabolicCurve.duration c then Inr (ParabolicCurve.x1 c)
      else (case FindRampIndex eps c t of
              Inl e \<Rightarrow> Inl e
            | Inr (index, remainder) \<Rightarrow>
                if 0 \<le> index \<and> index < int (length (ParabolicCurve.ramps c))
                then Ramp_EvalPos eps (ParabolicCurve.ramps c ! nat index) remainder
                else Inl OutOfRange))"

definition ParabolicCurve_EvalVel :: "real \<Rightarrow> ParabolicCurve \<Rightarrow> real \<Rightarrow> error + real" where
  "ParabolicCurve_EvalVel eps c t =
     (if \<not> t \<ge> - eps then Inl AssertionFailed
      else if \<not> t \<le> ParabolicCurve.duration c + eps then Inl AssertionFailed
      else if t \<le> 0 then Inr (ParabolicCurve.v0 c)
      else if t \<ge> ParabolicCurve.duration c then Inr (ParabolicCurve.v1 c)
      else (case FindRampIndex eps c t of
              Inl e \<Rightarrow> Inl e
            | Inr (index, remainder) \<Rightarrow>
                if 0 \<le> index \<and> index < int (length (ParabolicCurve.ramps c))
                then Ramp_EvalVel eps (ParabolicCurve.ramps c ! nat index) remainder
                else Inl OutOfRange))"

text \<open>
  \<^verbatim>\<open>ParabolicCurve::GetPeaks(bmin, bmax)\<close>: a fold over the ramps from
  \<open>(inf, - inf)\<close>, then the two closing assertions.
\<close>

fun ParabolicCurve_GetPeaks_loop :: "real \<Rightarrow> Ramp list \<Rightarrow> real \<times> real \<Rightarrow> error + (real \<times> real)" where
  "ParabolicCurve_GetPeaks_loop eps [] (bmin, bmax) = Inr (bmin, bmax)"
| "ParabolicCurve_GetPeaks_loop eps (r # rs) (bmin, bmax) =
     (case Ramp_GetPeaks eps r of
        Inl e \<Rightarrow> Inl e
      | Inr (temp1, temp2) \<Rightarrow>
          ParabolicCurve_GetPeaks_loop eps rs
            (if temp1 < bmin then temp1 else bmin, if temp2 > bmax then temp2 else bmax))"

definition ParabolicCurve_GetPeaks :: "real \<Rightarrow> real \<Rightarrow> ParabolicCurve \<Rightarrow> error + (real \<times> real)" where
  "ParabolicCurve_GetPeaks eps infty c =
     (case ParabolicCurve_GetPeaks_loop eps (ParabolicCurve.ramps c) (infty, - infty) of
        Inl e \<Rightarrow> Inl e
      | Inr (bmin, bmax) \<Rightarrow>
          if \<not> bmin < infty then Inl AssertionFailed
          else if \<not> bmax > - infty then Inl AssertionFailed
          else Inr (bmin, bmax))"

subsection \<open>ParabolicCurvesND\<close>

text \<open>
  The field \<^verbatim>\<open>ndof\<close> is an \<^verbatim>\<open>int\<close> in the source; it is only ever assigned
  the size of a vector or zero, and is a natural number here.
\<close>

record ParabolicCurvesND =
  ndof :: nat
  curves :: "ParabolicCurve list"
  duration :: real
  x0Vect :: "real list"
  x1Vect :: "real list"
  dVect :: "real list"
  v0Vect :: "real list"
  v1Vect :: "real list"
  switchpointsList :: "real list"
  constraintchecked :: int
  modified :: int

text \<open>
  The duration check of the constructor: every curve after the first is
  compared with the running minimum \<^verbatim>\<open>minDur\<close>, which is then lowered.
\<close>

fun check_durations :: "real \<Rightarrow> real \<Rightarrow> ParabolicCurve list \<Rightarrow> error + real" where
  "check_durations eps minDur [] = Inr minDur"
| "check_durations eps minDur (c # cs) =
     (if \<not> FuzzyEquals (ParabolicCurve.duration c) minDur eps then Inl AssertionFailed
      else check_durations eps (Min2 minDur (ParabolicCurve.duration c)) cs)"

text \<open>
  \<^verbatim>\<open>std::lower_bound\<close> by its specification: the position of the first element
  that is not less than the value (the end when there is none).
\<close>

fun lower_bound :: "real list \<Rightarrow> real \<Rightarrow> nat" where
  "lower_bound [] v = 0"
| "lower_bound (x # xs) v = (if x < v then Suc (lower_bound xs v) else 0)"

text \<open>
  The inner loop of the switch-point merge, over the interior switch points of
  one axis. The iterator returned by \<^verbatim>\<open>std::lower_bound\<close> is dereferenced
  without a test against \<^verbatim>\<open>end()\<close>.
\<close>

fun merge_interior :: "real \<Rightarrow> real list \<Rightarrow> real list \<Rightarrow> error + real list" where
  "merge_interior eps [] sw = Inr sw"
| "merge_interior eps (v # vs) sw =
     (let it = lower_bound sw v
      in if \<not> it < length sw then Inl OutOfRange
         else if \<not> FuzzyEquals v (sw ! it) eps
              then merge_interior eps vs (take it sw @ [v] @ drop it sw)
              else merge_interior eps vs sw)"

text \<open>
  The outer loop, over the axes. The bound of the inner loop is
  \<^verbatim>\<open>curves[i].switchpointsList.size() - 1\<close> in unsigned arithmetic and its
  counter starts at \<open>1\<close>: a table of fewer than two entries is read at index
  \<open>1\<close>, outside the vector.
\<close>

fun merge_switchpoints :: "real \<Rightarrow> ParabolicCurve list \<Rightarrow> real list \<Rightarrow> error + real list" where
  "merge_switchpoints eps [] sw = Inr sw"
| "merge_switchpoints eps (c # cs) sw =
     (if length (ParabolicCurve.switchpointsList c) < 2 then Inl OutOfRange
      else (case merge_interior eps (butlast (tl (ParabolicCurve.switchpointsList c))) sw of
              Inl e \<Rightarrow> Inl e
            | Inr sw' \<Rightarrow> merge_switchpoints eps cs sw'))"

text \<open>\<^verbatim>\<open>ParabolicCurvesND::ParabolicCurvesND(curvesIn)\<close>\<close>

definition ParabolicCurvesND_ctor :: "real \<Rightarrow> ParabolicCurve list \<Rightarrow> error + ParabolicCurvesND" where
  "ParabolicCurvesND_ctor eps curvesIn =
     (if \<not> (curvesIn \<noteq> []) then Inl AssertionFailed
      else
        (case check_durations eps (ParabolicCurve.duration (curvesIn ! 0)) (tl curvesIn) of
           Inl e \<Rightarrow> Inl e
         | Inr minDur \<Rightarrow>
             (case merge_switchpoints eps curvesIn (ParabolicCurve.switchpointsList (curvesIn ! 0)) of
                Inl e \<Rightarrow> Inl e
              | Inr sw \<Rightarrow>
                  Inr \<lparr> ParabolicCurvesND.ndof = length curvesIn,
                        ParabolicCurvesND.curves = curvesIn,
                        ParabolicCurvesND.duration = minDur,
                        ParabolicCurvesND.x0Vect = map ParabolicCurve.x0 curvesIn,
                        ParabolicCurvesND.x1Vect = map ParabolicCurve.x1 curvesIn,
                        ParabolicCurvesND.dVect = map ParabolicCurve.d curvesIn,
                        ParabolicCurvesND.v0Vect = map ParabolicCurve.v0 curvesIn,
                        ParabolicCurvesND.v1Vect = map ParabolicCurve.v1 curvesIn,
                        ParabolicCurvesND.switchpointsList = sw,
                        ParabolicCurvesND.constraintchecked = 0,
                        ParabolicCurvesND.modified = 0 \<rparr>)))"

text \<open>
  \<^verbatim>\<open>ParabolicCurvesND::GetPeaks(bminVect, bmaxVect)\<close>. The two output vectors
  come in with the caller's contents. \<^verbatim>\<open>std::vector::resize\<close> truncates or
  pads with zeros; the source resizes \<^verbatim>\<open>bminVect\<close> twice and \<^verbatim>\<open>bmaxVect\<close> not
  at all. Each iteration forms the references \<^verbatim>\<open>curves[i]\<close>, \<^verbatim>\<open>bminVect[i]\<close>
  and \<^verbatim>\<open>bmaxVect[i]\<close> before the call.
\<close>

definition resize :: "nat \<Rightarrow> real list \<Rightarrow> real list" where
  "resize n xs = take n xs @ replicate (n - length xs) 0"

fun ParabolicCurvesND_GetPeaks_loop ::
  "real \<Rightarrow> real \<Rightarrow> ParabolicCurve list \<Rightarrow> nat list \<Rightarrow> real list \<times> real list
     \<Rightarrow> error + (real list \<times> real list)" where
  "ParabolicCurvesND_GetPeaks_loop eps infty cs [] (bminVect, bmaxVect) = Inr (bminVect, bmaxVect)"
| "ParabolicCurvesND_GetPeaks_loop eps infty cs (i # is) (bminVect, bmaxVect) =
     (if \<not> i < length cs then Inl OutOfRange
      else if \<not> i < length bminVect then Inl OutOfRange
      else if \<not> i < length bmaxVect then Inl OutOfRange
      else (case ParabolicCurve_GetPeaks eps infty (cs ! i) of
              Inl e \<Rightarrow> Inl e
            | Inr (bmin, bmax) \<Rightarrow>
                ParabolicCurvesND_GetPeaks_loop eps infty cs is
                  (bminVect[i := bmin], bmaxVect[i := bmax])))"

definition ParabolicCurvesND_GetPeaks ::
  "real \<Rightarrow> real \<Rightarrow> ParabolicCurvesND \<Rightarrow> real list \<Rightarrow> real list \<Rightarrow> error + (real list \<times> real list)" where
  "ParabolicCurvesND_GetPeaks eps infty nd bminVect bmaxVect =
     (let bminVect1 = resize (ParabolicCurvesND.ndof nd) bminVect;
          bminVect2 = resize (ParabolicCurvesND.ndof nd) bminVect1
      in ParabolicCurvesND_GetPeaks_loop eps infty (ParabolicCurvesND.curves nd)
           [0 ..< ParabolicCurvesND.ndof nd] (bminVect2, bmaxVect))"

subsection \<open>Well-formed curves and the wording of the specification\<close>

text \<open>
  The cumulative times pushed by \<open>push_ramps\<close> from a starting time, and the
  state in which the constructor, \<^verbatim>\<open>Initialize\<close> and \<^verbatim>\<open>Append\<close> leave a
  non-empty curve: the aggregates are the sums over the ramps, the table holds
  \<open>0\<close> and the cumulative durations, \<^verbatim>\<open>v1\<close> is that of the last ramp and the
  ramp positions are chained from \<^verbatim>\<open>x0\<close>. (The lemmas \<open>ParabolicCurve_ctor_ok\<close>,
  \<open>ParabolicCurve_Initialize_ok\<close> and \<open>Append_ok\<close> below show that the code
  establishes and keeps this state.)
\<close>

fun cumulative :: "real \<Rightarrow> real list \<Rightarrow> real list" where
  "cumulative t [] = []"
| "cumulative t (x # xs) = (t + x) # cumulative (t + x) xs"

definition curve_ok :: "ParabolicCurve \<Rightarrow> bool" where
  "curve_ok c =
     (ParabolicCurve.ramps c \<noteq> []
      \<and> ParabolicCurve.switchpointsList c
          = 0 # cumulative 0 (map Ramp.duration (ParabolicCurve.ramps c))
      \<and> ParabolicCurve.duration c = sum_list (map Ramp.duration (ParabolicCurve.ramps c))
      \<and> ParabolicCurve.d c = sum_list (map Ramp.d (ParabolicCurve.ramps c))
      \<and> ParabolicCurve.v1 c = Ramp.v1 (last (ParabolicCurve.ramps c))
      \<and> ParabolicCurve.x1 c = ParabolicCurve.x0 c + ParabolicCurve.d c
      \<and> SetInitialValue_loop (ParabolicCurve.x0 c) (ParabolicCurve.ramps c)
          = ParabolicCurve.ramps c)"

text \<open>
  The lookup as the specification words it: outside the two boundary cases, the
  ramp is found from "the first switch point strictly exceeding \<open>t\<close>", and the
  remainder is \<open>t\<close> minus the switch point at which that ramp starts.
\<close>

fun first_exceeding :: "real \<Rightarrow> real list \<Rightarrow> nat" where
  "first_exceeding t [] = 0"
| "first_exceeding t (s # rest) = (if s > t then 0 else Suc (first_exceeding t rest))"

definition FindRampIndex_as_specified :: "real \<Rightarrow> ParabolicCurve \<Rightarrow> real \<Rightarrow> int \<times> real" where
  "FindRampIndex_as_specified eps c t =
     (if t < eps then (0, 0)
      else if t > ParabolicCurve.duration c - eps then
        (int (length (ParabolicCurve.ramps c)) - 1, Ramp.duration (last (ParabolicCurve.ramps c)))
      else let k = first_exceeding t (ParabolicCurve.switchpointsList c)
           in (int k - 1, t - ParabolicCurve.switchpointsList c ! (k - 1)))"

text \<open>
  The rejection condition as the specification words it: some curve's duration
  differs from the first curve's duration by more than the tolerance.
\<close>

definition differs_from_first :: "real \<Rightarrow> ParabolicCurve list \<Rightarrow> bool" where
  "differs_from_first eps cs =
     list_ex (\<lambda>c. \<bar>ParabolicCurve.duration c - ParabolicCurve.duration (hd cs)\<bar> > eps) cs"

text \<open>
  The condition the source tests: some curve after the first differs by more
  than the tolerance from the least duration among the curves before it.
\<close>

definition differs_from_running_min :: "real \<Rightarrow> ParabolicCurve list \<Rightarrow> bool" where
  "differs_from_running_min eps cs =
     (\<exists>i \<in> {1 ..< length cs}.
        \<bar>ParabolicCurve.duration (cs ! i) - Min (set (map ParabolicCurve.duration (take i cs)))\<bar> > eps)"

text \<open>
  The position of constant-acceleration motion in closed form, used to state
  bounds on what \<^verbatim>\<open>Ramp::EvalPos\<close> returns.
\<close>

definition position_at :: "real \<Rightarrow> real \<Rightarrow> real \<Rightarrow> real \<Rightarrow> real" where
  "position_at x v acc t = x + t * (v + 0.5 * acc * t)"

subsection \<open>Example objects\<close>

text \<open>
  The ramps and the curve of the specification's worked example (durations
  \<open>1\<close> and \<open>2\<close>; \<open>v0 = 0, a = 1\<close>, then \<open>v0 = 2, a = 0\<close>; both ramps created
  at position \<open>0\<close>), the curve of the second ramp alone, and a ramp and a curve
  at rest for a given duration. Each is the value the constructors return
  (lemmas \<open>example_ramps\<close>, \<open>example_curve_ctor\<close>, \<open>cruise_curve_ctor\<close>,
  \<open>rest_ramp_ctor\<close> and \<open>rest_curve_ctor\<close>).
\<close>

definition example_ramp1 :: Ramp where
  "example_ramp1 = \<lparr> Ramp.v0 = 0, Ramp.a = 1, Ramp.duration = 1, Ramp.x0 = 0,
                      Ramp.v1 = 1, Ramp.d = 1 / 2, Ramp.x1 = 1 / 2 \<rparr>"

definition example_ramp2 :: Ramp where
  "example_ramp2 = \<lparr> Ramp.v0 = 2, Ramp.a = 0, Ramp.duration = 2, Ramp.x0 = 0,
                      Ramp.v1 = 2, Ramp.d = 4, Ramp.x1 = 4 \<rparr>"

definition example_curve :: ParabolicCurve where
  "example_curve = \<lparr> ParabolicCurve.ramps = [example_ramp1, example_ramp2\<lparr>Ramp.x0 := 1 / 2\<rparr>],
                      ParabolicCurve.switchpointsList = [0, 1, 3],
                      ParabolicCurve.x0 = 0, ParabolicCurve.x1 = 9 / 2,
                      ParabolicCurve.d = 9 / 2, ParabolicCurve.duration = 3,
                      ParabolicCurve.v0 = 0, ParabolicCurve.v1 = 2 \<rparr>"

definition cruise_curve :: ParabolicCurve where
  "cruise_curve = \<lparr> ParabolicCurve.ramps = [example_ramp2],
                     ParabolicCurve.switchpointsList = [0, 2],
                     ParabolicCurve.x0 = 0, ParabolicCurve.x1 = 4,
                     ParabolicCurve.d = 4, ParabolicCurve.duration = 2,
                     ParabolicCurve.v0 = 2, ParabolicCurve.v1 = 2 \<rparr>"




definition rest_ramp :: "real \<Rightarrow> Ramp" where
  "rest_ramp T = \<lparr> Ramp.v0 = 0, Ramp.a = 0, Ramp.duration = T, Ramp.x0 = 0,
                    Ramp.v1 = 0, Ramp.d = 0, Ramp.x1 = 0 \<rparr>"

definition rest_curve :: "real \<Rightarrow> ParabolicCurve" where
  "rest_curve T = \<lparr> ParabolicCurve.ramps = [rest_ramp T],
                     ParabolicCurve.switchpointsList = [0, T],
                     ParabolicCurve.x0 = 0, ParabolicCurve.x1 = 0,
                     ParabolicCurve.d = 0, ParabolicCurve.duration = T,
                     ParabolicCurve.v0 = 0, ParabolicCurve.v1 = 0 \<rparr>"

text \<open>
  A curve at rest made of two ramps, of durations \<open>1 + 0.05e-10\<close> and
  \<open>0.05e-10\<close>: its duration is \<open>1 + 0.1e-10\<close> and its interior switch point
  lies after time \<open>1\<close> (lemma \<open>late_switch_curve_ctor\<close>).
\<close>

definition late_switch_curve :: ParabolicCurve where
  "late_switch_curve =
     \<lparr> ParabolicCurve.ramps = [rest_ramp (1 + 1 / (2 * 10 ^ 11)), rest_ramp (1 / (2 * 10 ^ 11))],
       ParabolicCurve.switchpointsList = [0, 1 + 1 / (2 * 10 ^ 11), 1 + 1 / 10 ^ 11],
       ParabolicCurve.x0 = 0, ParabolicCurve.x1 = 0,
       ParabolicCurve.d = 0, ParabolicCurve.duration = 1 + 1 / 10 ^ 11,
       ParabolicCurve.v0 = 0, ParabolicCurve.v1 = 0 \<rparr>"

text \<open>
  The one-axis object built from the curve at rest for duration \<open>1\<close> (lemma
  \<open>rest_nd_ctor\<close>).
\<close>

definition rest_nd :: ParabolicCurvesND where
  "rest_nd = \<lparr> ParabolicCurvesND.ndof = 1, ParabolicCurvesND.curves = [rest_curve 1],
                ParabolicCurvesND.duration = 1,
                ParabolicCurvesND.x0Vect = [0], ParabolicCurvesND.x1Vect = [0],
                ParabolicCurvesND.dVect = [0], ParabolicCurvesND.v0Vect = [0],
                ParabolicCurvesND.v1Vect = [0], ParabolicCurvesND.switchpointsList = [0, 1],
                ParabolicCurvesND.constraintchecked = 0, ParabolicCurvesND.modified = 0 \<rparr>"

section \<open>Properties of a single ramp\<close>

text \<open>
  Claim C1. A ramp constructed from \<open>(v0, a, T, x0)\<close> with \<open>T \<ge> 0\<close> evaluates to
  \<open>x0\<close> and \<open>v0\<close> at time \<open>0\<close>, to its fields \<open>x1\<close> and \<open>v1\<close> at time \<open>T\<close>, and
  at every time strictly between to the closed-form quadratic
  \<open>x0 + t * (v0 + 0.5 * a * t)\<close> and the linear \<open>v0 + a * t\<close>. The tolerance is
  taken non-negative.
\<close>

theorem Ramp_Eval_closed_form:
  assumes "0 \<le> eps" and "0 \<le> T"
  shows "\<exists>r. Ramp_ctor eps v0' a' T x0' = Inr r
           \<and> Ramp.x1 r = x0' + T * (v0' + 0.5 * a' * T)
           \<and> Ramp.v1 r = v0' + a' * T
           \<and> Ramp_EvalPos eps r 0 = Inr x0'
           \<and> Ramp_EvalPos eps r T = Inr (Ramp.x1 r)
           \<and> Ramp_EvalVel eps r 0 = Inr v0'
           \<and> Ramp_EvalVel eps r T = Inr (Ramp.v1 r)
           \<and> (\<forall>t. 0 < t \<and> t < T \<longrightarrow>
                 Ramp_EvalPos eps r t = Inr (x0' + t * (v0' + 0.5 * a' * t))
               \<and> Ramp_EvalVel eps r t = Inr (v0' + a' * t))"
  using assms by (auto simp: Ramp_ctor_def Ramp_EvalPos_def Ramp_EvalVel_def)

theorem Ramp_Eval_closed_form_witness:
  "(0::real) \<le> 1 / 10 ^ 10 \<and> (0::real) \<le> 3 \<and>
   (\<exists>r. Ramp_ctor (1 / 10 ^ 10) 1 2 3 4 = Inr r
       \<and> Ramp.x1 r = 16 \<and> Ramp.v1 r = 7
       \<and> Ramp_EvalPos (1 / 10 ^ 10) r 0 = Inr 4
       \<and> Ramp_EvalPos (1 / 10 ^ 10) r 3 = Inr 16
       \<and> Ramp_EvalVel (1 / 10 ^ 10) r 0 = Inr 1
       \<and> Ramp_EvalVel (1 / 10 ^ 10) r 3 = Inr 7
       \<and> Ramp_EvalPos (1 / 10 ^ 10) r 1 = Inr 6
       \<and> Ramp_EvalVel (1 / 10 ^ 10) r 1 = Inr 3)"
proof -
  have e: "(0::real) \<le> 1 / 10 ^ 10" and T: "(0::real) \<le> 3" by simp_all
  from Ramp_Eval_closed_form [OF e T, of 1 2 4]
  obtain r where r: "Ramp_ctor (1 / 10 ^ 10) 1 2 3 4 = Inr r"
    and x1: "Ramp.x1 r = 4 + 3 * (1 + 0.5 * 2 * 3)"
    and v1: "Ramp.v1 r = 1 + 2 * 3"
    and p0: "Ramp_EvalPos (1 / 10 ^ 10) r 0 = Inr 4"
    and pT: "Ramp_EvalPos (1 / 10 ^ 10) r 3 = Inr (Ramp.x1 r)"
    and w0: "Ramp_EvalVel (1 / 10 ^ 10) r 0 = Inr 1"
    and wT: "Ramp_EvalVel (1 / 10 ^ 10) r 3 = Inr (Ramp.v1 r)"
    and mid: "\<forall>t. 0 < t \<and> t < 3 \<longrightarrow>
                 Ramp_EvalPos (1 / 10 ^ 10) r t = Inr (4 + t * (1 + 0.5 * 2 * t))
               \<and> Ramp_EvalVel (1 / 10 ^ 10) r t = Inr (1 + 2 * t)"
    by blast
  from mid have m1: "Ramp_EvalPos (1 / 10 ^ 10) r 1 = Inr (4 + 1 * (1 + 0.5 * 2 * 1))
      \<and> Ramp_EvalVel (1 / 10 ^ 10) r 1 = Inr (1 + 2 * 1)"
    by (simp del: One_nat_def)
  show ?thesis
    using r x1 v1 p0 pT w0 wT m1 by (intro conjI exI [of _ r]) simp_all
qed


subsection \<open>GetPeaks of a ramp\<close>










lemma position_at_0 [simp]: "position_at x v acc 0 = x"
  by (simp add: position_at_def)






















section \<open>Properties of a curve\<close>

subsection \<open>The loops in closed form\<close>

lemma SetInitialValue_loop_length [simp]:
  "length (SetInitialValue_loop x rs) = length rs"
  by (induction rs arbitrary: x) simp_all

lemma SetInitialValue_loop_d [simp]:
  "map Ramp.d (SetInitialValue_loop x rs) = map Ramp.d rs"
  by (induction rs arbitrary: x) simp_all

lemma SetInitialValue_loop_duration [simp]:
  "map Ramp.duration (SetInitialValue_loop x rs) = map Ramp.duration rs"
  by (induction rs arbitrary: x) simp_all

lemma SetInitialValue_loop_idem [simp]:
  "SetInitialValue_loop x (SetInitialValue_loop x rs) = SetInitialValue_loop x rs"
  by (induction rs arbitrary: x) simp_all

lemma SetInitialValue_loop_nth:
  "i < length rs \<Longrightarrow>
     SetInitialValue_loop x rs ! i = (rs ! i)\<lparr>Ramp.x0 := x + sum_list (map Ramp.d (take i rs))\<rparr>"
proof (induction rs arbitrary: x i)
  case Nil
  then show ?case by simp
next
  case (Cons r rs)
  show ?case
  proof (cases i)
    case 0
    then show ?thesis by simp
  next
    case (Suc j)
    with Cons.prems have "j < length rs" by simp
    from Cons.IH [OF this, of "x + Ramp.d r"] Suc show ?thesis
      by (simp add: add.assoc)
  qed
qed

lemma SetInitialValue_loop_Nil [simp]:
  "(SetInitialValue_loop x rs = []) = (rs = [])"
  by (cases rs) simp_all

lemma SetInitialValue_loop_last:
  "rs \<noteq> [] \<Longrightarrow> Ramp.v1 (last (SetInitialValue_loop x rs)) = Ramp.v1 (last rs)"
  by (induction rs arbitrary: x) auto

lemma SetInitialValue_loop_append:
  "SetInitialValue_loop x (rs @ qs)
     = SetInitialValue_loop x rs @ SetInitialValue_loop (x + sum_list (map Ramp.d rs)) qs"
  by (induction rs arbitrary: x) (simp_all add: add.assoc)

lemma cumulative_append:
  "cumulative t (xs @ ys) = cumulative t xs @ cumulative (t + sum_list xs) ys"
  by (induction xs arbitrary: t) (simp_all add: add.assoc)


lemma push_ramps_eq:
  "push_ramps rs c =
     c\<lparr> ParabolicCurve.ramps := ParabolicCurve.ramps c @ rs,
        ParabolicCurve.d := ParabolicCurve.d c + sum_list (map Ramp.d rs),
        ParabolicCurve.duration := ParabolicCurve.duration c + sum_list (map Ramp.duration rs),
        ParabolicCurve.switchpointsList :=
          ParabolicCurve.switchpointsList c
            @ cumulative (ParabolicCurve.duration c) (map Ramp.duration rs) \<rparr>"
  by (induction rs arbitrary: c) (simp_all add: Let_def add.assoc)


lemma ParabolicCurve_ctor_ok:
  assumes "rs \<noteq> []"
  shows "\<exists>c. ParabolicCurve_ctor rs = Inr c \<and> curve_ok c
             \<and> ParabolicCurve.ramps c = SetInitialValue_loop (Ramp.x0 (hd rs)) rs
             \<and> ParabolicCurve.x0 c = Ramp.x0 (hd rs)
             \<and> ParabolicCurve.v0 c = Ramp.v0 (hd rs)"
  using assms
  by (simp add: ParabolicCurve_ctor_def Let_def push_ramps_eq SetInitialValue_def curve_ok_def
      SetInitialValue_loop_last hd_conv_nth)

lemma ParabolicCurve_Initialize_ok:
  assumes "rs \<noteq> []"
  shows "\<exists>c. ParabolicCurve_Initialize c0 rs = Inr c \<and> curve_ok c
             \<and> ParabolicCurve.ramps c = SetInitialValue_loop (Ramp.x0 (hd rs)) rs
             \<and> ParabolicCurve.x0 c = Ramp.x0 (hd rs)
             \<and> ParabolicCurve.v0 c = Ramp.v0 (hd rs)"
  using assms
  by (simp add: ParabolicCurve_Initialize_def Let_def push_ramps_eq SetInitialValue_def curve_ok_def
      SetInitialValue_loop_last hd_conv_nth)

lemma Append_nonempty_eq:
  assumes "ParabolicCurve.ramps A \<noteq> []" and "ParabolicCurve.ramps B \<noteq> []"
  shows "Append A B = Inr (A\<lparr>
      ParabolicCurve.ramps :=
        SetInitialValue_loop (ParabolicCurve.x0 A) (ParabolicCurve.ramps A @ ParabolicCurve.ramps B),
      ParabolicCurve.d := ParabolicCurve.d A + sum_list (map Ramp.d (ParabolicCurve.ramps B)),
      ParabolicCurve.duration :=
        ParabolicCurve.duration A + sum_list (map Ramp.duration (ParabolicCurve.ramps B)),
      ParabolicCurve.switchpointsList :=
        ParabolicCurve.switchpointsList A
          @ cumulative (ParabolicCurve.duration A) (map Ramp.duration (ParabolicCurve.ramps B)),
      ParabolicCurve.v1 := ParabolicCurve.v1 B,
      ParabolicCurve.x1 := ParabolicCurve.x0 A
          + (ParabolicCurve.d A + sum_list (map Ramp.d (ParabolicCurve.ramps B)))\<rparr>)"
  using assms
  by (simp add: Append_def IsEmpty_def Let_def push_ramps_eq SetInitialValue_def)

lemma Append_ok:
  assumes "curve_ok A" and "curve_ok B"
  shows "\<exists>c. Append A B = Inr c \<and> curve_ok c"
proof -
  from assms have ne: "ParabolicCurve.ramps A \<noteq> []" "ParabolicCurve.ramps B \<noteq> []"
    by (simp_all add: curve_ok_def)
  show ?thesis
    using assms ne
    by (simp add: Append_nonempty_eq [OF ne] curve_ok_def cumulative_append
        SetInitialValue_loop_last SetInitialValue_loop_append)
qed

lemma chained_hd:
  assumes "rs \<noteq> []" and "SetInitialValue_loop x rs = rs"
  shows "Ramp.x0 (rs ! 0) = x"
proof (cases rs)
  case Nil
  with assms show ?thesis by simp
next
  case (Cons r qs)
  with assms(2) have "r\<lparr>Ramp.x0 := x\<rparr> = r" by simp
  then have "Ramp.x0 (r\<lparr>Ramp.x0 := x\<rparr>) = Ramp.x0 r" by simp
  with Cons show ?thesis by simp
qed

lemma Append_Reset_eq:
  assumes "curve_ok B"
  shows "Append (Reset c) B = Inr (B\<lparr>ParabolicCurve.v0 := 0\<rparr>)"
proof -
  from assms have ne: "ParabolicCurve.ramps B \<noteq> []"
    and ch: "SetInitialValue_loop (ParabolicCurve.x0 B) (ParabolicCurve.ramps B) = ParabolicCurve.ramps B"
    by (simp_all add: curve_ok_def)
  have h: "Ramp.x0 (ParabolicCurve.ramps B ! 0) = ParabolicCurve.x0 B"
    by (rule chained_hd [OF ne ch])
  have "SetInitialValue (ParabolicCurve.x0 B)
          (push_ramps (ParabolicCurve.ramps B)
             ((Reset c)\<lparr> ParabolicCurve.d := 0, ParabolicCurve.duration := 0,
                 ParabolicCurve.switchpointsList := ParabolicCurve.switchpointsList (Reset c) @ [0],
                 ParabolicCurve.x0 := ParabolicCurve.x0 B \<rparr>)
             \<lparr>ParabolicCurve.v1 := ParabolicCurve.v1 B\<rparr>)
        = B\<lparr>ParabolicCurve.v0 := 0\<rparr>"
    using assms
    by (intro ParabolicCurve.equality)
       (simp_all add: push_ramps_eq SetInitialValue_def Let_def Reset_def curve_ok_def)
  moreover have "ParabolicCurve.x0 (push_ramps rs k) = ParabolicCurve.x0 k" for rs k
    by (simp add: push_ramps_eq)
  ultimately show ?thesis
    using ne h by (simp add: Append_def IsEmpty_def Let_def Reset_def)
qed


lemma curve_ok_v0_update:
  "curve_ok c \<Longrightarrow> curve_ok (c\<lparr>ParabolicCurve.v0 := w\<rparr>)"
  by (simp add: curve_ok_def)

lemma Append_Reset_ok:
  assumes "curve_ok B"
  shows "\<exists>c'. Append (Reset c) B = Inr c' \<and> curve_ok c'"
  using Append_Reset_eq [OF assms] curve_ok_v0_update [OF assms] by simp

lemma SetInitialValue_ok:
  assumes "curve_ok c"
  shows "curve_ok (SetInitialValue x c)"
  using assms
  by (simp add: curve_ok_def SetInitialValue_def Let_def SetInitialValue_loop_last)

subsection \<open>The example objects are what the constructors return\<close>

lemma example_ramps:
  "Ramp_ctor (1 / 10 ^ 10) 0 1 1 0 = Inr example_ramp1"
  "Ramp_ctor (1 / 10 ^ 10) 2 0 2 0 = Inr example_ramp2"
  by (simp_all add: Ramp_ctor_def example_ramp1_def example_ramp2_def)

lemma example_curve_ctor:
  "ParabolicCurve_ctor [example_ramp1, example_ramp2] = Inr example_curve"
  by (simp add: ParabolicCurve_ctor_def Let_def SetInitialValue_def example_curve_def
      example_ramp1_def example_ramp2_def)

lemma example_curve_ok: "curve_ok example_curve"
  by (simp add: curve_ok_def example_curve_def example_ramp1_def example_ramp2_def)


lemma cruise_curve_ctor:
  "ParabolicCurve_ctor [example_ramp2] = Inr cruise_curve"
  by (simp add: ParabolicCurve_ctor_def Let_def SetInitialValue_def cruise_curve_def
      example_ramp2_def)

lemma cruise_curve_ok: "curve_ok cruise_curve"
  by (simp add: curve_ok_def cruise_curve_def example_ramp2_def)

lemma rest_ramp_ctor: "- eps \<le> T \<Longrightarrow> Ramp_ctor eps 0 0 T 0 = Inr (rest_ramp T)"
  by (simp add: Ramp_ctor_def rest_ramp_def)

lemma rest_curve_ctor: "ParabolicCurve_ctor [rest_ramp T] = Inr (rest_curve T)"
  by (simp add: ParabolicCurve_ctor_def Let_def SetInitialValue_def rest_curve_def rest_ramp_def)

lemma late_switch_curve_ctor:
  "ParabolicCurve_ctor [rest_ramp (1 + 1 / (2 * 10 ^ 11)), rest_ramp (1 / (2 * 10 ^ 11))]
     = Inr late_switch_curve"
  by (simp add: ParabolicCurve_ctor_def Let_def SetInitialValue_def late_switch_curve_def
      rest_ramp_def)

subsection \<open>Derived fields of the ramps of a curve\<close>

text \<open>
  Claim C3. Every ramp held by a curve should keep \<open>x1 = x0 + d\<close> after every
  operation. The loop of \<^verbatim>\<open>SetInitialValue\<close> writes \<^verbatim>\<open>ramps[i].x0\<close> and leaves
  \<^verbatim>\<open>ramps[i].x1\<close> as it was, where \<^verbatim>\<open>Ramp::UpdateDuration\<close> and
  \<^verbatim>\<open>Ramp::Initialize\<close> recompute it. For the curve of the worked example the
  second ramp ends with \<open>x0 = 1/2\<close>, \<open>d = 4\<close> and \<open>x1 = 4\<close>; the stale value
  is what the curve returns just before its end, where the end itself is
  \<open>9/2\<close>.
\<close>

theorem ramp_x1_stale_after_SetInitialValue:
  "Ramp_ctor (1 / 10 ^ 10) 0 1 1 0 = Inr example_ramp1
   \<and> Ramp_ctor (1 / 10 ^ 10) 2 0 2 0 = Inr example_ramp2
   \<and> ParabolicCurve_ctor [example_ramp1, example_ramp2] = Inr example_curve
   \<and> Ramp.x0 (ParabolicCurve.ramps example_curve ! 1) = 1 / 2
   \<and> Ramp.d (ParabolicCurve.ramps example_curve ! 1) = 4
   \<and> Ramp.x1 (ParabolicCurve.ramps example_curve ! 1) = 4
   \<and> Ramp.x1 (ParabolicCurve.ramps example_curve ! 1)
       \<noteq> Ramp.x0 (ParabolicCurve.ramps example_curve ! 1) + Ramp.d (ParabolicCurve.ramps example_curve ! 1)
   \<and> ParabolicCurve_EvalPos (1 / 10 ^ 10) example_curve (3 - 1 / (2 * 10 ^ 10)) = Inr 4
   \<and> ParabolicCurve_EvalPos (1 / 10 ^ 10) example_curve 3 = Inr (9 / 2)"
proof -
  have "Ramp.x0 (ParabolicCurve.ramps example_curve ! 1) = 1 / 2
   \<and> Ramp.d (ParabolicCurve.ramps example_curve ! 1) = 4
   \<and> Ramp.x1 (ParabolicCurve.ramps example_curve ! 1) = 4
   \<and> Ramp.x1 (ParabolicCurve.ramps example_curve ! 1)
       \<noteq> Ramp.x0 (ParabolicCurve.ramps example_curve ! 1) + Ramp.d (ParabolicCurve.ramps example_curve ! 1)
   \<and> ParabolicCurve_EvalPos (1 / 10 ^ 10) example_curve (3 - 1 / (2 * 10 ^ 10)) = Inr 4
   \<and> ParabolicCurve_EvalPos (1 / 10 ^ 10) example_curve 3 = Inr (9 / 2)"
    by (simp add: example_curve_def example_ramp2_def ParabolicCurve_EvalPos_def FindRampIndex_def
        Ramp_EvalPos_def)
  with example_ramps example_curve_ctor show ?thesis by blast
qed

subsection \<open>Empty input\<close>

text \<open>
  Claim C6. On an empty ramp sequence the constructor fails its assertion
  before anything is read. \<^verbatim>\<open>Initialize\<close> has no such assertion: its first
  read of the input, \<^verbatim>\<open>rampsIn.front()\<close>, is outside the empty vector.
\<close>

theorem empty_input_ctor_and_Initialize:
  "ParabolicCurve_ctor [] = Inl AssertionFailed
   \<and> ParabolicCurve_Initialize c [] = Inl OutOfRange"
  by (simp add: ParabolicCurve_ctor_def ParabolicCurve_Initialize_def Let_def)


subsection \<open>Append\<close>




text \<open>
  Claim C8. Appending a non-empty curve \<open>B\<close> to an empty (reset) curve should
  adopt every aggregate of \<open>B\<close>. The empty branch of \<^verbatim>\<open>Append\<close> sets \<^verbatim>\<open>x0\<close>,
  \<^verbatim>\<open>d\<close>, \<^verbatim>\<open>duration\<close> and the table and the common part sets \<^verbatim>\<open>v1\<close> and
  \<^verbatim>\<open>x1\<close>, but nothing assigns \<^verbatim>\<open>v0\<close>: it keeps the \<open>0\<close> of the reset. For
  the curve of the second example ramp, whose \<open>v0\<close> is \<open>2\<close>, the result is that
  curve with \<open>v0 = 0\<close>.
\<close>

theorem Append_to_empty_keeps_v0:
  "ParabolicCurve_ctor [example_ramp2] = Inr cruise_curve
   \<and> ParabolicCurve.v0 cruise_curve = 2
   \<and> Append (Reset c) cruise_curve = Inr (cruise_curve\<lparr>ParabolicCurve.v0 := 0\<rparr>)
   \<and> Append (Reset c) cruise_curve \<noteq> Inr cruise_curve"
proof -
  have v: "ParabolicCurve.v0 cruise_curve = 2"
    by (simp add: cruise_curve_def)
  have a: "Append (Reset c) cruise_curve = Inr (cruise_curve\<lparr>ParabolicCurve.v0 := 0\<rparr>)"
    by (rule Append_Reset_eq [OF cruise_curve_ok])
  have "ParabolicCurve.v0 (cruise_curve\<lparr>ParabolicCurve.v0 := 0\<rparr>) \<noteq> ParabolicCurve.v0 cruise_curve"
    using v by simp
  then have "cruise_curve\<lparr>ParabolicCurve.v0 := 0\<rparr> \<noteq> cruise_curve"
    by (metis)
  with a v cruise_curve_ctor show ?thesis by simp
qed

subsection \<open>SetInitialValue\<close>

text \<open>
  Claim C9. \<^verbatim>\<open>SetInitialValue\<close> is idempotent: a second application with the
  same value changes nothing, in particular not the curve's \<open>x1\<close> nor any
  ramp's displacement; after an application, ramp \<open>i\<close> starts at the given
  value plus the displacements of the ramps before it, and the curve's \<open>x1\<close> is
  its \<open>x0\<close> plus \<open>d\<close>.
\<close>

theorem SetInitialValue_idempotent:
  "SetInitialValue x (SetInitialValue x c) = SetInitialValue x c
   \<and> ParabolicCurve.x1 (SetInitialValue x (SetInitialValue x c))
       = ParabolicCurve.x1 (SetInitialValue x c)
   \<and> map Ramp.d (ParabolicCurve.ramps (SetInitialValue x (SetInitialValue x c)))
       = map Ramp.d (ParabolicCurve.ramps (SetInitialValue x c))
   \<and> map Ramp.d (ParabolicCurve.ramps (SetInitialValue x c)) = map Ramp.d (ParabolicCurve.ramps c)
   \<and> length (ParabolicCurve.ramps (SetInitialValue x c)) = length (ParabolicCurve.ramps c)
   \<and> (\<forall>i < length (ParabolicCurve.ramps c).
         Ramp.x0 (ParabolicCurve.ramps (SetInitialValue x c) ! i)
           = x + sum_list (map Ramp.d (take i (ParabolicCurve.ramps c))))
   \<and> ParabolicCurve.x0 (SetInitialValue x c) = x
   \<and> ParabolicCurve.x1 (SetInitialValue x c)
       = ParabolicCurve.x0 (SetInitialValue x c) + ParabolicCurve.d (SetInitialValue x c)"
  by (simp add: SetInitialValue_def Let_def SetInitialValue_loop_nth)

theorem SetInitialValue_idempotent_witness:
  "SetInitialValue 5 (SetInitialValue 5 example_curve) = SetInitialValue 5 example_curve
   \<and> Ramp.x0 (ParabolicCurve.ramps (SetInitialValue 5 example_curve) ! 0) = 5
   \<and> Ramp.x0 (ParabolicCurve.ramps (SetInitialValue 5 example_curve) ! 1) = 11 / 2
   \<and> ParabolicCurve.x1 (SetInitialValue 5 example_curve) = 19 / 2"
proof -
  note h = SetInitialValue_idempotent [of 5 example_curve]
  have len: "length (ParabolicCurve.ramps example_curve) = 2"
    by (simp add: example_curve_def)
  from h have nth: "\<forall>i < length (ParabolicCurve.ramps example_curve).
         Ramp.x0 (ParabolicCurve.ramps (SetInitialValue 5 example_curve) ! i)
           = 5 + sum_list (map Ramp.d (take i (ParabolicCurve.ramps example_curve)))"
    by blast
  have a0: "Ramp.x0 (ParabolicCurve.ramps (SetInitialValue 5 example_curve) ! 0) = 5"
    using nth len by simp
  have "(1::nat) < length (ParabolicCurve.ramps example_curve)" using len by simp
  with nth have "Ramp.x0 (ParabolicCurve.ramps (SetInitialValue 5 example_curve) ! 1)
           = 5 + sum_list (map Ramp.d (take 1 (ParabolicCurve.ramps example_curve)))"
    by blast
  then have a1: "Ramp.x0 (ParabolicCurve.ramps (SetInitialValue 5 example_curve) ! 1) = 11 / 2"
    by (simp add: example_curve_def example_ramp1_def)
  from h have "ParabolicCurve.x1 (SetInitialValue 5 example_curve)
       = ParabolicCurve.x0 (SetInitialValue 5 example_curve) + ParabolicCurve.d (SetInitialValue 5 example_curve)"
    and "ParabolicCurve.x0 (SetInitialValue 5 example_curve) = 5" by blast+
  then have a2: "ParabolicCurve.x1 (SetInitialValue 5 example_curve) = 19 / 2"
    by (simp add: SetInitialValue_def Let_def example_curve_def)
  from h a0 a1 a2 show ?thesis by blast
qed


subsection \<open>FindRampIndex\<close>

lemma FindRampIndex_scan_eq:
  "FindRampIndex_scan t sw i = i + length (takeWhile (\<lambda>s. t > s) sw)"
  by (induction sw arbitrary: i) simp_all

lemma last_cumulative:
  "last (t # cumulative t xs) = t + sum_list xs"
  by (induction xs arbitrary: t) (simp_all add: add.assoc)

lemma length_cumulative [simp]: "length (cumulative t xs) = length xs"
  by (induction xs arbitrary: t) simp_all

lemma curve_ok_table:
  assumes "curve_ok c"
  shows "length (ParabolicCurve.switchpointsList c) = Suc (length (ParabolicCurve.ramps c))"
    and "ParabolicCurve.switchpointsList c ! 0 = 0"
    and "last (ParabolicCurve.switchpointsList c) = ParabolicCurve.duration c"
  using assms last_cumulative [of 0 "map Ramp.duration (ParabolicCurve.ramps c)"]
  by (simp_all add: curve_ok_def)

lemma FindRampIndex_cases_aux:
  assumes "0 < eps" and "curve_ok c" and "- eps \<le> t" and "t \<le> ParabolicCurve.duration c + eps"
  shows "(t < eps \<longrightarrow> FindRampIndex eps c t = Inr (0, 0))
       \<and> (\<not> t < eps \<and> t > ParabolicCurve.duration c - eps \<longrightarrow>
            FindRampIndex eps c t
              = Inr (int (length (ParabolicCurve.ramps c)) - 1,
                     Ramp.duration (last (ParabolicCurve.ramps c))))
       \<and> (\<not> t < eps \<and> \<not> t > ParabolicCurve.duration c - eps \<longrightarrow>
            (\<exists>k. k < length (ParabolicCurve.ramps c)
               \<and> FindRampIndex eps c t = Inr (int k, t - ParabolicCurve.switchpointsList c ! k)
               \<and> (\<forall>j \<le> k. ParabolicCurve.switchpointsList c ! j < t)
               \<and> t \<le> ParabolicCurve.switchpointsList c ! Suc k))"
proof (intro conjI impI)
  assume "t < eps"
  with assms show "FindRampIndex eps c t = Inr (0, 0)"
    by (simp add: FindRampIndex_def)
next
  assume "\<not> t < eps \<and> t > ParabolicCurve.duration c - eps"
  with assms show "FindRampIndex eps c t
              = Inr (int (length (ParabolicCurve.ramps c)) - 1,
                     Ramp.duration (last (ParabolicCurve.ramps c)))"
    by (simp add: FindRampIndex_def curve_ok_def)
next
  let ?sw = "ParabolicCurve.switchpointsList c"
  let ?n = "length (takeWhile (\<lambda>s. t > s) ?sw)"
  assume mid: "\<not> t < eps \<and> \<not> t > ParabolicCurve.duration c - eps"
  note tab = curve_ok_table [OF assms(2)]
  have sw_ne: "?sw \<noteq> []" using tab(1) by auto
  have t_pos: "0 < t" using mid assms(1) by simp
  have t_lt: "t < ParabolicCurve.duration c" using mid assms(1) by simp
  have n_le: "?n \<le> length ?sw" by (rule length_takeWhile_le)
  have n_lt: "?n < length ?sw"
  proof (rule ccontr)
    assume "\<not> ?n < length ?sw"
    with n_le have "?n = length ?sw" by simp
    then have "takeWhile (\<lambda>s. t > s) ?sw = ?sw"
      by (metis takeWhile_eq_take take_all order_refl)
    then have "\<forall>s \<in> set ?sw. t > s" by (metis set_takeWhileD)
    moreover have "last ?sw \<in> set ?sw" using sw_ne by simp
    ultimately have "t > last ?sw" by blast
    with tab(3) t_lt show False by simp
  qed
  have n_pos: "0 < ?n"
  proof (cases ?sw)
    case Nil
    with sw_ne show ?thesis by simp
  next
    case (Cons s rest)
    with tab(2) have "s = 0" by simp
    with Cons t_pos show ?thesis by simp
  qed
  have below: "\<forall>j < ?n. ?sw ! j < t"
  proof (intro allI impI)
    fix j assume j: "j < ?n"
    then have "takeWhile (\<lambda>s. t > s) ?sw ! j = ?sw ! j" by (rule takeWhile_nth)
    moreover have "takeWhile (\<lambda>s. t > s) ?sw ! j \<in> set (takeWhile (\<lambda>s. t > s) ?sw)"
      using j by simp
    ultimately show "?sw ! j < t" by (metis set_takeWhileD)
  qed
  have stop: "\<not> t > ?sw ! ?n" using n_lt by (rule nth_length_takeWhile)
  have scan: "FindRampIndex_scan t ?sw 0 = ?n" by (simp add: FindRampIndex_scan_eq)
  have res: "FindRampIndex eps c t = Inr (int ?n - 1, t - ?sw ! (?n - 1))"
    using assms(3,4) mid n_lt n_pos by (simp add: FindRampIndex_def scan Let_def)
  show "\<exists>k. k < length (ParabolicCurve.ramps c)
               \<and> FindRampIndex eps c t = Inr (int k, t - ?sw ! k)
               \<and> (\<forall>j \<le> k. ?sw ! j < t)
               \<and> t \<le> ?sw ! Suc k"
  proof (intro exI [of _ "?n - 1"] conjI)
    show "?n - 1 < length (ParabolicCurve.ramps c)" using n_lt n_pos tab(1) by linarith
    have "int ?n - 1 = int (?n - 1)" using n_pos by linarith
    with res show "FindRampIndex eps c t = Inr (int (?n - 1), t - ?sw ! (?n - 1))"
      by (simp only:)
    show "\<forall>j \<le> ?n - 1. ?sw ! j < t"
    proof (intro allI impI)
      fix j assume "j \<le> ?n - 1"
      with n_pos have "j < ?n" by linarith
      with below show "?sw ! j < t" by blast
    qed
    have "Suc (?n - 1) = ?n" using n_pos by linarith
    with stop show "t \<le> ?sw ! Suc (?n - 1)" by (simp only: not_less)
  qed
qed


text \<open>
  Claim C4, as the code has it. For a positive tolerance, a well-formed
  non-empty curve and a time \<open>t\<close> in \<open>[- eps, duration + eps]\<close>: \<open>t < eps\<close>
  gives \<open>(0, 0)\<close>; otherwise \<open>t > duration - eps\<close> gives the last ramp and that
  ramp's duration; otherwise the scan stops at the first switch point that is
  not less than \<open>t\<close> (at least \<open>t\<close>, rather than strictly exceeding it), the
  index is that of the ramp ending there and the remainder is \<open>t\<close> minus the
  switch point at which that ramp starts. For the curve of the two example
  ramps (created at any positions) and a tolerance of at most \<open>3/2\<close>, the
  duration is \<open>3\<close>, \<open>EvalPos(3)\<close> is the curve's \<open>x1\<close> and
  \<open>FindRampIndex(1.5)\<close> is \<open>(1, 0.5)\<close>.
\<close>

theorem FindRampIndex_cases:
  assumes "0 < eps"
  shows "(\<forall>c t. curve_ok c \<and> - eps \<le> t \<and> t \<le> ParabolicCurve.duration c + eps \<longrightarrow>
           (t < eps \<longrightarrow> FindRampIndex eps c t = Inr (0, 0))
         \<and> (\<not> t < eps \<and> t > ParabolicCurve.duration c - eps \<longrightarrow>
              FindRampIndex eps c t
                = Inr (int (length (ParabolicCurve.ramps c)) - 1,
                       Ramp.duration (last (ParabolicCurve.ramps c))))
         \<and> (\<not> t < eps \<and> \<not> t > ParabolicCurve.duration c - eps \<longrightarrow>
              (\<exists>k. k < length (ParabolicCurve.ramps c)
                 \<and> FindRampIndex eps c t = Inr (int k, t - ParabolicCurve.switchpointsList c ! k)
                 \<and> (\<forall>j \<le> k. ParabolicCurve.switchpointsList c ! j < t)
                 \<and> t \<le> ParabolicCurve.switchpointsList c ! Suc k)))
       \<and> (eps \<le> 3 / 2 \<longrightarrow>
            (\<exists>r1 r2 c. Ramp_ctor eps 0 1 1 xa = Inr r1 \<and> Ramp_ctor eps 2 0 2 xb = Inr r2
               \<and> ParabolicCurve_ctor [r1, r2] = Inr c
               \<and> ParabolicCurve.duration c = 3
               \<and> ParabolicCurve_EvalPos eps c 3 = Inr (ParabolicCurve.x1 c)
               \<and> FindRampIndex eps c (3 / 2) = Inr (1, 1 / 2)))"
proof (intro conjI allI impI)
  fix c t
  assume h: "curve_ok c \<and> - eps \<le> t \<and> t \<le> ParabolicCurve.duration c + eps"
  then have ok: "curve_ok c" and lo: "- eps \<le> t" and hi: "t \<le> ParabolicCurve.duration c + eps"
    by simp_all
  note aux = FindRampIndex_cases_aux [OF assms ok lo hi]
  { assume "t < eps"
    with aux show "FindRampIndex eps c t = Inr (0, 0)" by blast }
  { assume "\<not> t < eps \<and> t > ParabolicCurve.duration c - eps"
    with aux show "FindRampIndex eps c t
                = Inr (int (length (ParabolicCurve.ramps c)) - 1,
                       Ramp.duration (last (ParabolicCurve.ramps c)))" by blast }
  { assume "\<not> t < eps \<and> \<not> t > ParabolicCurve.duration c - eps"
    with aux show "\<exists>k. k < length (ParabolicCurve.ramps c)
                 \<and> FindRampIndex eps c t = Inr (int k, t - ParabolicCurve.switchpointsList c ! k)
                 \<and> (\<forall>j \<le> k. ParabolicCurve.switchpointsList c ! j < t)
                 \<and> t \<le> ParabolicCurve.switchpointsList c ! Suc k" by blast }
next
  assume e: "eps \<le> 3 / 2"
  show "\<exists>r1 r2 c. Ramp_ctor eps 0 1 1 xa = Inr r1 \<and> Ramp_ctor eps 2 0 2 xb = Inr r2
               \<and> ParabolicCurve_ctor [r1, r2] = Inr c
               \<and> ParabolicCurve.duration c = 3
               \<and> ParabolicCurve_EvalPos eps c 3 = Inr (ParabolicCurve.x1 c)
               \<and> FindRampIndex eps c (3 / 2) = Inr (1, 1 / 2)"
    using assms e
    by (simp add: Ramp_ctor_def ParabolicCurve_ctor_def Let_def SetInitialValue_def
        ParabolicCurve_EvalPos_def FindRampIndex_def)
qed

theorem FindRampIndex_cases_witness:
  "(0::real) < 1 / 10 ^ 10 \<and> curve_ok example_curve
   \<and> FindRampIndex (1 / 10 ^ 10) example_curve 0 = Inr (0, 0)
   \<and> FindRampIndex (1 / 10 ^ 10) example_curve 3 = Inr (1, 2)
   \<and> FindRampIndex (1 / 10 ^ 10) example_curve 2 = Inr (1, 1)
   \<and> FindRampIndex (1 / 10 ^ 10) example_curve (3 / 2) = Inr (1, 1 / 2)"
proof -
  let ?e = "1 / 10 ^ 10 :: real"
  have e: "0 < ?e" by simp
  note th = FindRampIndex_cases [OF e, of 0 0]
  have dur: "ParabolicCurve.duration example_curve = 3"
    and len: "length (ParabolicCurve.ramps example_curve) = 2"
    and lst: "Ramp.duration (last (ParabolicCurve.ramps example_curve)) = 2"
    and sw: "ParabolicCurve.switchpointsList example_curve = [0, 1, 3]"
    by (simp_all add: example_curve_def example_ramp2_def)
  from th have gen: "curve_ok example_curve \<and> - ?e \<le> t \<and> t \<le> ParabolicCurve.duration example_curve + ?e \<longrightarrow>
           (t < ?e \<longrightarrow> FindRampIndex ?e example_curve t = Inr (0, 0))
         \<and> (\<not> t < ?e \<and> t > ParabolicCurve.duration example_curve - ?e \<longrightarrow>
              FindRampIndex ?e example_curve t
                = Inr (int (length (ParabolicCurve.ramps example_curve)) - 1,
                       Ramp.duration (last (ParabolicCurve.ramps example_curve))))
         \<and> (\<not> t < ?e \<and> \<not> t > ParabolicCurve.duration example_curve - ?e \<longrightarrow>
              (\<exists>k. k < length (ParabolicCurve.ramps example_curve)
                 \<and> FindRampIndex ?e example_curve t = Inr (int k, t - ParabolicCurve.switchpointsList example_curve ! k)
                 \<and> (\<forall>j \<le> k. ParabolicCurve.switchpointsList example_curve ! j < t)
                 \<and> t \<le> ParabolicCurve.switchpointsList example_curve ! Suc k))" for t
    by blast
  have a0: "FindRampIndex ?e example_curve 0 = Inr (0, 0)"
    using gen [of 0] example_curve_ok by (simp add: dur)
  have a3: "FindRampIndex ?e example_curve 3 = Inr (1, 2)"
    using gen [of 3] example_curve_ok by (simp add: dur len lst)
  have "\<exists>k. k < 2 \<and> FindRampIndex ?e example_curve 2 = Inr (int k, 2 - [0, 1, 3] ! k)
                 \<and> (\<forall>j \<le> k. [0, 1, 3 :: real] ! j < 2)
                 \<and> 2 \<le> [0, 1, 3 :: real] ! Suc k"
    using gen [of 2] example_curve_ok by (simp add: dur len sw)
  then obtain k where k: "k < 2" "FindRampIndex ?e example_curve 2 = Inr (int k, 2 - [0, 1, 3] ! k)"
      "2 \<le> [0, 1, 3 :: real] ! Suc k" by blast
  from k(1) have "k = 0 \<or> k = 1" by auto
  with k(3) have "k = 1" by auto
  with k(2) have a2: "FindRampIndex ?e example_curve 2 = Inr (1, 1)" by simp
  from th have "?e \<le> 3 / 2 \<longrightarrow>
            (\<exists>r1 r2 c. Ramp_ctor ?e 0 1 1 0 = Inr r1 \<and> Ramp_ctor ?e 2 0 2 0 = Inr r2
               \<and> ParabolicCurve_ctor [r1, r2] = Inr c
               \<and> ParabolicCurve.duration c = 3
               \<and> ParabolicCurve_EvalPos ?e c 3 = Inr (ParabolicCurve.x1 c)
               \<and> FindRampIndex ?e c (3 / 2) = Inr (1, 1 / 2))" by blast
  moreover have "?e \<le> 3 / 2" by simp
  ultimately obtain r1 r2 c where "Ramp_ctor ?e 0 1 1 0 = Inr r1" "Ramp_ctor ?e 2 0 2 0 = Inr r2"
      "ParabolicCurve_ctor [r1, r2] = Inr c" "FindRampIndex ?e c (3 / 2) = Inr (1, 1 / 2)"
    by blast
  with example_ramps example_curve_ctor
  have a15: "FindRampIndex ?e example_curve (3 / 2) = Inr (1, 1 / 2)" by simp
  from e example_curve_ok a0 a3 a2 a15 show ?thesis by blast
qed

text \<open>
  At a time equal to an interior switch point the code and the wording "first
  switch point strictly exceeding \<open>t\<close>" part: at \<open>t = 1\<close> on the example curve
  the code answers ramp \<open>0\<close> with remainder \<open>1\<close>, the wording ramp \<open>1\<close> with
  remainder \<open>0\<close>.
\<close>

theorem FindRampIndex_strict_counterexample:
  "FindRampIndex (1 / 10 ^ 10) example_curve 1 = Inr (0, 1)
   \<and> FindRampIndex_as_specified (1 / 10 ^ 10) example_curve 1 = (1, 0)
   \<and> FindRampIndex (1 / 10 ^ 10) example_curve 1
       \<noteq> Inr (FindRampIndex_as_specified (1 / 10 ^ 10) example_curve 1)"
  by (simp add: FindRampIndex_def FindRampIndex_as_specified_def example_curve_def)

section \<open>Properties of a multi-axis curve\<close>

subsection \<open>The duration check of the constructor\<close>

lemma Min2_min: "Min2 x y = min x y"
  by (simp add: Min2_def min_def)

lemma Min_insert_min:
  assumes "finite S"
  shows "Min (insert (min x y) S) = Min (insert x (insert y S))"
proof (cases "S = {}")
  case True
  then show ?thesis by simp
next
  case False
  with assms show ?thesis by (simp add: min.assoc)
qed

lemma check_durations_eq:
  "check_durations eps m cs =
     (if \<exists>i < length cs.
           \<bar>ParabolicCurve.duration (cs ! i)
              - Min (insert m (set (map ParabolicCurve.duration (take i cs))))\<bar> > eps
      then Inl AssertionFailed
      else Inr (Min (insert m (set (map ParabolicCurve.duration cs)))))"
proof (induction cs arbitrary: m)
  case Nil
  show ?case by simp
next
  case (Cons c cs)
  let ?dc = "ParabolicCurve.duration c"
  let ?bad = "\<lambda>m cs i. \<bar>ParabolicCurve.duration (cs ! i)
              - Min (insert m (set (map ParabolicCurve.duration (take i cs))))\<bar> > eps"
  have shift: "?bad m (c # cs) (Suc j) = ?bad (min m ?dc) cs j" for j
    by (simp add: Min_insert_min)
  have split: "(\<exists>i < length (c # cs). ?bad m (c # cs) i)
      = (?bad m (c # cs) 0 \<or> (\<exists>j < length cs. ?bad (min m ?dc) cs j))"
  proof
    assume "\<exists>i < length (c # cs). ?bad m (c # cs) i"
    then obtain i where i: "i < length (c # cs)" "?bad m (c # cs) i" by blast
    show "?bad m (c # cs) 0 \<or> (\<exists>j < length cs. ?bad (min m ?dc) cs j)"
    proof (cases i)
      case 0
      with i show ?thesis by blast
    next
      case (Suc j)
      with i shift [of j] have "j < length cs" "?bad (min m ?dc) cs j" by simp_all
      then show ?thesis by blast
    qed
  next
    assume "?bad m (c # cs) 0 \<or> (\<exists>j < length cs. ?bad (min m ?dc) cs j)"
    then show "\<exists>i < length (c # cs). ?bad m (c # cs) i"
    proof
      assume "?bad m (c # cs) 0"
      then show ?thesis by (intro exI [of _ 0]) simp
    next
      assume "\<exists>j < length cs. ?bad (min m ?dc) cs j"
      then obtain j where "j < length cs" "?bad (min m ?dc) cs j" by blast
      with shift [of j] show ?thesis by (intro exI [of _ "Suc j"]) simp
    qed
  qed
  have fin: "Min (insert (min m ?dc) (set (map ParabolicCurve.duration cs)))
      = Min (insert m (set (map ParabolicCurve.duration (c # cs))))"
    by (simp add: Min_insert_min)
  show ?case
  proof (cases "?bad m (c # cs) 0")
    case True
    then have chk: "check_durations eps m (c # cs) = Inl AssertionFailed"
      by (simp add: FuzzyEquals_def)
    from True split have ex: "\<exists>i < length (c # cs). ?bad m (c # cs) i" by blast
    show ?thesis by (subst if_P [OF ex]) (rule chk)
  next
    case False
    then have chk: "check_durations eps m (c # cs) = check_durations eps (min m ?dc) cs"
      by (simp add: FuzzyEquals_def Min2_min)
    from False split have e1: "(\<exists>i < length (c # cs). ?bad m (c # cs) i)
        = (\<exists>j < length cs. ?bad (min m ?dc) cs j)" by blast
    show ?thesis by (simp only: chk Cons.IH [of "min m ?dc"] e1 fin)
  qed
qed


lemma merge_interior_error:
  "merge_interior eps vs sw = Inl e \<Longrightarrow> e = OutOfRange"
  by (induction vs arbitrary: sw) (auto simp: Let_def split: if_splits)

lemma merge_switchpoints_error:
  "merge_switchpoints eps cs sw = Inl e \<Longrightarrow> e = OutOfRange"
  by (induction cs arbitrary: sw) (auto split: if_splits sum.splits dest: merge_interior_error)

lemma differs_from_running_min_Cons:
  "differs_from_running_min eps (c # cs) =
     (\<exists>i < length cs.
           \<bar>ParabolicCurve.duration (cs ! i)
              - Min (insert (ParabolicCurve.duration c)
                      (set (map ParabolicCurve.duration (take i cs))))\<bar> > eps)"
proof -
  have "(\<exists>i \<in> {1 ..< length (c # cs)}.
        \<bar>ParabolicCurve.duration ((c # cs) ! i)
           - Min (set (map ParabolicCurve.duration (take i (c # cs))))\<bar> > eps)
     = (\<exists>j < length cs.
        \<bar>ParabolicCurve.duration ((c # cs) ! Suc j)
           - Min (set (map ParabolicCurve.duration (take (Suc j) (c # cs))))\<bar> > eps)"
  proof
    assume "\<exists>i \<in> {1 ..< length (c # cs)}.
        \<bar>ParabolicCurve.duration ((c # cs) ! i)
           - Min (set (map ParabolicCurve.duration (take i (c # cs))))\<bar> > eps"
    then obtain i where i: "1 \<le> i" "i < length (c # cs)"
        "\<bar>ParabolicCurve.duration ((c # cs) ! i)
           - Min (set (map ParabolicCurve.duration (take i (c # cs))))\<bar> > eps"
      by auto
    from i(1) obtain j where j: "i = Suc j" by (cases i) simp_all
    with i(2) have "j < length cs" by simp
    with i(3) j show "\<exists>j < length cs.
        \<bar>ParabolicCurve.duration ((c # cs) ! Suc j)
           - Min (set (map ParabolicCurve.duration (take (Suc j) (c # cs))))\<bar> > eps"
      by blast
  next
    assume "\<exists>j < length cs.
        \<bar>ParabolicCurve.duration ((c # cs) ! Suc j)
           - Min (set (map ParabolicCurve.duration (take (Suc j) (c # cs))))\<bar> > eps"
    then obtain j where j: "j < length cs"
        "\<bar>ParabolicCurve.duration ((c # cs) ! Suc j)
           - Min (set (map ParabolicCurve.duration (take (Suc j) (c # cs))))\<bar> > eps"
      by blast
    from j(1) have "Suc j \<in> {1 ..< length (c # cs)}" by simp
    with j(2) show "\<exists>i \<in> {1 ..< length (c # cs)}.
        \<bar>ParabolicCurve.duration ((c # cs) ! i)
           - Min (set (map ParabolicCurve.duration (take i (c # cs))))\<bar> > eps"
      by blast
  qed
  then show ?thesis by (simp add: differs_from_running_min_def)
qed

lemma ParabolicCurvesND_ctor_Cons:
  "ParabolicCurvesND_ctor eps (c # cs) =
     (if differs_from_running_min eps (c # cs) then Inl AssertionFailed
      else case merge_switchpoints eps (c # cs) (ParabolicCurve.switchpointsList c) of
             Inl e \<Rightarrow> Inl e
           | Inr sw \<Rightarrow>
               Inr \<lparr> ParabolicCurvesND.ndof = length (c # cs),
                     ParabolicCurvesND.curves = c # cs,
                     ParabolicCurvesND.duration = Min (set (map ParabolicCurve.duration (c # cs))),
                     ParabolicCurvesND.x0Vect = map ParabolicCurve.x0 (c # cs),
                     ParabolicCurvesND.x1Vect = map ParabolicCurve.x1 (c # cs),
                     ParabolicCurvesND.dVect = map ParabolicCurve.d (c # cs),
                     ParabolicCurvesND.v0Vect = map ParabolicCurve.v0 (c # cs),
                     ParabolicCurvesND.v1Vect = map ParabolicCurve.v1 (c # cs),
                     ParabolicCurvesND.switchpointsList = sw,
                     ParabolicCurvesND.constraintchecked = 0,
                     ParabolicCurvesND.modified = 0 \<rparr>)"
proof (cases "differs_from_running_min eps (c # cs)")
  case True
  then have "check_durations eps (ParabolicCurve.duration c) cs = Inl AssertionFailed"
    by (simp only: check_durations_eq differs_from_running_min_Cons if_True)
  with True show ?thesis
    by (simp add: ParabolicCurvesND_ctor_def del: merge_switchpoints.simps)
next
  case False
  then have "check_durations eps (ParabolicCurve.duration c) cs
      = Inr (Min (insert (ParabolicCurve.duration c) (set (map ParabolicCurve.duration cs))))"
    by (simp only: check_durations_eq differs_from_running_min_Cons if_False)
  with False show ?thesis
    by (simp add: ParabolicCurvesND_ctor_def del: merge_switchpoints.simps split: sum.splits)
qed

lemma ParabolicCurvesND_ctor_durations_aux:
  assumes "cs \<noteq> []"
  shows "(ParabolicCurvesND_ctor eps cs = Inl AssertionFailed) = differs_from_running_min eps cs"
    and "ParabolicCurvesND_ctor eps cs = Inr nd \<Longrightarrow>
           ParabolicCurvesND.duration nd = Min (set (map ParabolicCurve.duration cs))"
proof -
  from assms obtain c rest where cs: "cs = c # rest" by (cases cs) simp_all
  show "(ParabolicCurvesND_ctor eps cs = Inl AssertionFailed) = differs_from_running_min eps cs"
  proof (cases "differs_from_running_min eps cs")
    case True
    then show ?thesis unfolding cs by (simp add: ParabolicCurvesND_ctor_Cons)
  next
    case False
    have "ParabolicCurvesND_ctor eps (c # rest) \<noteq> Inl AssertionFailed"
    proof (cases "merge_switchpoints eps (c # rest) (ParabolicCurve.switchpointsList c)")
      case (Inl e)
      then have "e = OutOfRange" by (rule merge_switchpoints_error)
      with Inl False show ?thesis
        unfolding cs by (simp add: ParabolicCurvesND_ctor_Cons del: merge_switchpoints.simps)
    next
      case (Inr sw)
      with False show ?thesis
        unfolding cs by (simp add: ParabolicCurvesND_ctor_Cons del: merge_switchpoints.simps)
    qed
    with False show ?thesis unfolding cs by simp
  qed
  show "ParabolicCurvesND.duration nd = Min (set (map ParabolicCurve.duration cs))"
    if h: "ParabolicCurvesND_ctor eps cs = Inr nd"
  proof (cases "merge_switchpoints eps (c # rest) (ParabolicCurve.switchpointsList c)")
    case (Inl e)
    with h show ?thesis
      unfolding cs
      by (simp add: ParabolicCurvesND_ctor_Cons del: merge_switchpoints.simps split: if_splits)
  next
    case (Inr sw)
    with h show ?thesis
      unfolding cs
      by (auto simp add: ParabolicCurvesND_ctor_Cons simp del: merge_switchpoints.simps
          split: if_splits)
  qed
qed


lemma merge_switchpoints_single:
  "merge_switchpoints eps [rest_curve T1, rest_curve T2] sw = Inr sw"
  by (simp add: rest_curve_def)

lemma ctor_single_ramp_table:
  "ParabolicCurve_ctor [r] = Inr c \<Longrightarrow>
     ParabolicCurve.switchpointsList c = [0, Ramp.duration r] \<and> ParabolicCurve.duration c = Ramp.duration r"
  by (auto simp: ParabolicCurve_ctor_def Let_def SetInitialValue_def)

text \<open>
  Claim C5, as the code has it. Construction from a non-empty list of curves
  fails its assertion exactly when some curve after the first differs by more
  than the tolerance from the least duration among the curves before it (the
  running minimum, rather than the first curve's duration); when construction
  succeeds the duration of the object is the least duration of all curves. For
  a positive tolerance, durations \<open>1\<close> and \<open>1 + 10 * eps\<close> fail, and two
  single-ramp curves of durations \<open>1\<close> and \<open>1 + 0.1 * eps\<close> succeed.
\<close>

theorem ParabolicCurvesND_ctor_durations:
  "(cs \<noteq> [] \<longrightarrow>
      ((ParabolicCurvesND_ctor eps cs = Inl AssertionFailed) = differs_from_running_min eps cs)
    \<and> (\<forall>nd. ParabolicCurvesND_ctor eps cs = Inr nd \<longrightarrow>
          ParabolicCurvesND.duration nd = Min (set (map ParabolicCurve.duration cs))))
   \<and> (0 < eps \<longrightarrow>
        (\<forall>c1 c2. ParabolicCurve.duration c1 = 1 \<and> ParabolicCurve.duration c2 = 1 + 10 * eps \<longrightarrow>
           ParabolicCurvesND_ctor eps [c1, c2] = Inl AssertionFailed)
      \<and> (\<forall>r1 r2 c1 c2. Ramp.duration r1 = 1 \<and> Ramp.duration r2 = 1 + 0.1 * eps
           \<and> ParabolicCurve_ctor [r1] = Inr c1 \<and> ParabolicCurve_ctor [r2] = Inr c2 \<longrightarrow>
           (\<exists>nd. ParabolicCurvesND_ctor eps [c1, c2] = Inr nd \<and> ParabolicCurvesND.duration nd = 1)))"
proof (intro conjI impI allI)
  assume "cs \<noteq> []"
  then show "(ParabolicCurvesND_ctor eps cs = Inl AssertionFailed) = differs_from_running_min eps cs"
    by (rule ParabolicCurvesND_ctor_durations_aux(1))
next
  fix nd
  assume "cs \<noteq> []" and "ParabolicCurvesND_ctor eps cs = Inr nd"
  then show "ParabolicCurvesND.duration nd = Min (set (map ParabolicCurve.duration cs))"
    by (rule ParabolicCurvesND_ctor_durations_aux(2))
next
  fix c1 c2 :: ParabolicCurve
  assume e: "0 < eps"
    and d: "ParabolicCurve.duration c1 = 1 \<and> ParabolicCurve.duration c2 = 1 + 10 * eps"
  then show "ParabolicCurvesND_ctor eps [c1, c2] = Inl AssertionFailed"
    by (simp add: ParabolicCurvesND_ctor_def FuzzyEquals_def)
next
  fix r1 r2 :: Ramp and c1 c2 :: ParabolicCurve
  assume e: "0 < eps"
    and h: "Ramp.duration r1 = 1 \<and> Ramp.duration r2 = 1 + 0.1 * eps
           \<and> ParabolicCurve_ctor [r1] = Inr c1 \<and> ParabolicCurve_ctor [r2] = Inr c2"
  from h ctor_single_ramp_table [of r1 c1] ctor_single_ramp_table [of r2 c2]
  have t: "ParabolicCurve.switchpointsList c1 = [0, 1]" "ParabolicCurve.duration c1 = 1"
      "ParabolicCurve.switchpointsList c2 = [0, 1 + 0.1 * eps]"
      "ParabolicCurve.duration c2 = 1 + 0.1 * eps"
    by simp_all
  with e show "\<exists>nd. ParabolicCurvesND_ctor eps [c1, c2] = Inr nd \<and> ParabolicCurvesND.duration nd = 1"
    by (simp add: ParabolicCurvesND_ctor_def FuzzyEquals_def Min2_def)
qed

theorem ParabolicCurvesND_ctor_durations_witness:
  "differs_from_running_min (1 / 10 ^ 10) [rest_curve 1, rest_curve 2]
   \<and> ParabolicCurvesND_ctor (1 / 10 ^ 10) [rest_curve 1, rest_curve 2] = Inl AssertionFailed
   \<and> ParabolicCurvesND_ctor (1 / 10 ^ 10) [rest_curve 1, rest_curve (1 + 10 * (1 / 10 ^ 10))]
       = Inl AssertionFailed
   \<and> (\<exists>nd. ParabolicCurvesND_ctor (1 / 10 ^ 10) [rest_curve 1, rest_curve (1 + 0.1 * (1 / 10 ^ 10))]
              = Inr nd \<and> ParabolicCurvesND.duration nd = 1)"
proof -
  let ?e = "1 / 10 ^ 10 :: real"
  note th = ParabolicCurvesND_ctor_durations [of "[rest_curve 1, rest_curve 2]" ?e]
  have "(1::nat) \<in> {1 ..< length [rest_curve 1, rest_curve 2]}" by simp
  moreover have "\<bar>ParabolicCurve.duration ([rest_curve 1, rest_curve 2] ! 1)
      - Min (set (map ParabolicCurve.duration (take 1 [rest_curve 1, rest_curve 2])))\<bar> > ?e"
    by (simp add: rest_curve_def)
  ultimately have bad: "differs_from_running_min ?e [rest_curve 1, rest_curve 2]"
    unfolding differs_from_running_min_def by blast
  from th have "(ParabolicCurvesND_ctor ?e [rest_curve 1, rest_curve 2] = Inl AssertionFailed)
      = differs_from_running_min ?e [rest_curve 1, rest_curve 2]" by blast
  with bad have a1: "ParabolicCurvesND_ctor ?e [rest_curve 1, rest_curve 2] = Inl AssertionFailed"
    by simp
  have e: "0 < ?e" by simp
  from th e have ex1: "\<forall>c1 c2. ParabolicCurve.duration c1 = 1 \<and> ParabolicCurve.duration c2 = 1 + 10 * ?e \<longrightarrow>
           ParabolicCurvesND_ctor ?e [c1, c2] = Inl AssertionFailed"
    and ex2: "\<forall>r1 r2 c1 c2. Ramp.duration r1 = 1 \<and> Ramp.duration r2 = 1 + 0.1 * ?e
           \<and> ParabolicCurve_ctor [r1] = Inr c1 \<and> ParabolicCurve_ctor [r2] = Inr c2 \<longrightarrow>
           (\<exists>nd. ParabolicCurvesND_ctor ?e [c1, c2] = Inr nd \<and> ParabolicCurvesND.duration nd = 1)"
    by blast+
  have "ParabolicCurve.duration (rest_curve 1) = 1
      \<and> ParabolicCurve.duration (rest_curve (1 + 10 * ?e)) = 1 + 10 * ?e"
    by (simp add: rest_curve_def)
  with ex1 have a2: "ParabolicCurvesND_ctor ?e [rest_curve 1, rest_curve (1 + 10 * ?e)]
       = Inl AssertionFailed" by blast
  have "Ramp.duration (rest_ramp 1) = 1 \<and> Ramp.duration (rest_ramp (1 + 0.1 * ?e)) = 1 + 0.1 * ?e
       \<and> ParabolicCurve_ctor [rest_ramp 1] = Inr (rest_curve 1)
       \<and> ParabolicCurve_ctor [rest_ramp (1 + 0.1 * ?e)] = Inr (rest_curve (1 + 0.1 * ?e))"
    by (simp add: rest_curve_ctor) (simp add: rest_ramp_def)
  with ex2 have a3: "\<exists>nd. ParabolicCurvesND_ctor ?e [rest_curve 1, rest_curve (1 + 0.1 * ?e)]
              = Inr nd \<and> ParabolicCurvesND.duration nd = 1" by blast
  from bad a1 a2 a3 show ?thesis by blast
qed

text \<open>
  With three curves the running minimum and the first duration part. At the
  tolerance \<open>1e-10\<close>, durations \<open>1\<close>, \<open>1 - 0.8e-10\<close>, \<open>1 + 0.8e-10\<close> are each
  within the tolerance of the first, and construction fails; durations \<open>1\<close>,
  \<open>1 - 0.8e-10\<close>, \<open>1 - 1.6e-10\<close> have the third beyond the tolerance of the
  first, and the assertion passes. Durations \<open>1\<close> and \<open>1 + 0.1e-10\<close> pass the
  assertion, but when the second curve has an interior switch point after time
  \<open>1\<close> the merge of the tables dereferences the end of the table: construction
  does not complete.
\<close>

theorem durations_first_counterexample:
  "ParabolicCurvesND_ctor (1 / 10 ^ 10)
       [rest_curve 1, rest_curve (1 - 8 / 10 ^ 11), rest_curve (1 + 8 / 10 ^ 11)]
     = Inl AssertionFailed
   \<and> \<not> differs_from_first (1 / 10 ^ 10)
       [rest_curve 1, rest_curve (1 - 8 / 10 ^ 11), rest_curve (1 + 8 / 10 ^ 11)]
   \<and> differs_from_first (1 / 10 ^ 10)
       [rest_curve 1, rest_curve (1 - 8 / 10 ^ 11), rest_curve (1 - 16 / 10 ^ 11)]
   \<and> ParabolicCurvesND_ctor (1 / 10 ^ 10)
       [rest_curve 1, rest_curve (1 - 8 / 10 ^ 11), rest_curve (1 - 16 / 10 ^ 11)]
     \<noteq> Inl AssertionFailed
   \<and> ParabolicCurve.duration late_switch_curve = 1 + 0.1 * (1 / 10 ^ 10)
   \<and> ParabolicCurvesND_ctor (1 / 10 ^ 10) [rest_curve 1, late_switch_curve] = Inl OutOfRange"
  by (simp add: ParabolicCurvesND_ctor_def differs_from_first_def FuzzyEquals_def Min2_def
      rest_curve_def late_switch_curve_def)

subsection \<open>GetPeaks and its output vectors\<close>

lemma GetPeaks_loop_Inr:
  "ParabolicCurvesND_GetPeaks_loop eps infty cs is (bminVect, bmaxVect) = Inr (bminVect', bmaxVect')
   \<Longrightarrow> length bminVect' = length bminVect \<and> length bmaxVect' = length bmaxVect
       \<and> (\<forall>i \<in> set is. i < length bmaxVect)"
proof (induction "is" arbitrary: bminVect bmaxVect)
  case Nil
  then show ?case by simp
next
  case (Cons i "is")
  from Cons.prems have ok: "i < length cs" "i < length bminVect" "i < length bmaxVect"
    by (auto split: if_splits)
  from Cons.prems ok obtain bmin bmax where
    p: "ParabolicCurve_GetPeaks eps infty (cs ! i) = Inr (bmin, bmax)"
    and r: "ParabolicCurvesND_GetPeaks_loop eps infty cs is
              (bminVect[i := bmin], bmaxVect[i := bmax]) = Inr (bminVect', bmaxVect')"
    by (auto split: sum.splits)
  from Cons.IH [OF r] ok show ?case by simp
qed

lemma GetPeaks_loop_OutOfRange:
  assumes "\<forall>i \<in> set is1. i < length cs \<and> i < length bminVect \<and> i < length bmaxVect
             \<and> (\<exists>p. ParabolicCurve_GetPeaks eps infty (cs ! i) = Inr p)"
    and "\<not> j < length bmaxVect"
  shows "ParabolicCurvesND_GetPeaks_loop eps infty cs (is1 @ j # is2) (bminVect, bmaxVect)
           = Inl OutOfRange"
  using assms
proof (induction is1 arbitrary: bminVect bmaxVect)
  case Nil
  then show ?case by simp
next
  case (Cons i is1)
  from Cons.prems(1) obtain bmin bmax where
    ok: "i < length cs" "i < length bminVect" "i < length bmaxVect"
    and p: "ParabolicCurve_GetPeaks eps infty (cs ! i) = Inr (bmin, bmax)"
    by auto
  have "ParabolicCurvesND_GetPeaks_loop eps infty cs (is1 @ j # is2)
          (bminVect[i := bmin], bmaxVect[i := bmax]) = Inl OutOfRange"
    using Cons.prems by (intro Cons.IH) simp_all
  with ok p show ?case by simp
qed

lemma length_resize [simp]: "length (resize n xs) = n"
  by (simp add: resize_def)

lemma rest_nd_ctor: "ParabolicCurvesND_ctor eps [rest_curve 1] = Inr rest_nd"
  by (simp add: ParabolicCurvesND_ctor_def rest_nd_def rest_curve_def)

lemma rest_curve_GetPeaks:
  "0 \<le> eps \<Longrightarrow> 0 < infty \<Longrightarrow> ParabolicCurve_GetPeaks eps infty (rest_curve T) = Inr (0, 0)"
  by (simp add: ParabolicCurve_GetPeaks_def Ramp_GetPeaks_def FuzzyZero_def rest_curve_def
      rest_ramp_def)

text \<open>
  Claim C10. \<^verbatim>\<open>ParabolicCurvesND::GetPeaks\<close> resizes \<^verbatim>\<open>bminVect\<close> twice and
  \<^verbatim>\<open>bmaxVect\<close> never. With at least one axis and an incoming \<^verbatim>\<open>bmaxVect\<close>
  shorter than \<^verbatim>\<open>ndof\<close> the call cannot succeed, and when the axes before
  position \<open>length bmaxVect\<close> are present and their curves yield peaks, it ends
  in the out-of-range write \<^verbatim>\<open>bmaxVect[i]\<close>. Whenever the call succeeds the
  caller had sized \<^verbatim>\<open>bmaxVect\<close> to at least \<^verbatim>\<open>ndof\<close>; the returned
  \<^verbatim>\<open>bminVect\<close> has length \<^verbatim>\<open>ndof\<close> and \<^verbatim>\<open>bmaxVect\<close> keeps its length.
\<close>

theorem ParabolicCurvesND_GetPeaks_bmaxVect:
  "(1 \<le> ParabolicCurvesND.ndof nd \<and> length bmaxVect < ParabolicCurvesND.ndof nd \<longrightarrow>
      (\<exists>e. ParabolicCurvesND_GetPeaks eps infty nd bminVect bmaxVect = Inl e)
    \<and> ((\<forall>i < length bmaxVect. i < length (ParabolicCurvesND.curves nd)
            \<and> (\<exists>p. ParabolicCurve_GetPeaks eps infty (ParabolicCurvesND.curves nd ! i) = Inr p))
        \<longrightarrow> ParabolicCurvesND_GetPeaks eps infty nd bminVect bmaxVect = Inl OutOfRange))
   \<and> (\<forall>bminVect' bmaxVect'.
         ParabolicCurvesND_GetPeaks eps infty nd bminVect bmaxVect = Inr (bminVect', bmaxVect') \<longrightarrow>
           ParabolicCurvesND.ndof nd \<le> length bmaxVect
         \<and> length bminVect' = ParabolicCurvesND.ndof nd
         \<and> length bmaxVect' = length bmaxVect)"
proof -
  let ?n = "ParabolicCurvesND.ndof nd"
  let ?cs = "ParabolicCurvesND.curves nd"
  let ?b = "resize ?n (resize ?n bminVect)"
  have def: "ParabolicCurvesND_GetPeaks eps infty nd bminVect bmaxVect
      = ParabolicCurvesND_GetPeaks_loop eps infty ?cs [0 ..< ?n] (?b, bmaxVect)"
    by (simp add: ParabolicCurvesND_GetPeaks_def Let_def)
  have succ: "?n \<le> length bmaxVect \<and> length bminVect' = ?n \<and> length bmaxVect' = length bmaxVect"
    if h: "ParabolicCurvesND_GetPeaks eps infty nd bminVect bmaxVect = Inr (bminVect', bmaxVect')"
    for bminVect' bmaxVect'
  proof -
    from h def have "ParabolicCurvesND_GetPeaks_loop eps infty ?cs [0 ..< ?n] (?b, bmaxVect)
        = Inr (bminVect', bmaxVect')" by simp
    from GetPeaks_loop_Inr [OF this]
    have l: "length bminVect' = ?n" "length bmaxVect' = length bmaxVect"
      and all: "\<forall>i \<in> set [0 ..< ?n]. i < length bmaxVect" by simp_all
    have "?n \<le> length bmaxVect"
    proof (rule ccontr)
      assume "\<not> ?n \<le> length bmaxVect"
      then have "length bmaxVect \<in> set [0 ..< ?n]" by simp
      with all show False by blast
    qed
    with l show ?thesis by simp
  qed
  have fail: "\<exists>e. ParabolicCurvesND_GetPeaks eps infty nd bminVect bmaxVect = Inl e"
    if "length bmaxVect < ?n"
  proof (cases "ParabolicCurvesND_GetPeaks eps infty nd bminVect bmaxVect")
    case (Inl e)
    then show ?thesis by blast
  next
    case (Inr r)
    then obtain u v where "ParabolicCurvesND_GetPeaks eps infty nd bminVect bmaxVect = Inr (u, v)"
      by (cases r) simp
    from succ [OF this] that show ?thesis by simp
  qed
  have oor: "ParabolicCurvesND_GetPeaks eps infty nd bminVect bmaxVect = Inl OutOfRange"
    if lt: "length bmaxVect < ?n"
      and good: "\<forall>i < length bmaxVect. i < length ?cs
            \<and> (\<exists>p. ParabolicCurve_GetPeaks eps infty (?cs ! i) = Inr p)"
  proof -
    let ?L = "length bmaxVect"
    have sp: "[0 ..< ?n] = [0 ..< ?L] @ ?L # [Suc ?L ..< ?n]"
      using lt by (metis less_imp_le_nat upt_add_eq_append upt_conv_Cons le0 le_add_diff_inverse plus_nat.add_0)
    have "ParabolicCurvesND_GetPeaks_loop eps infty ?cs ([0 ..< ?L] @ ?L # [Suc ?L ..< ?n]) (?b, bmaxVect)
        = Inl OutOfRange"
      using lt good by (intro GetPeaks_loop_OutOfRange) auto
    with def sp show ?thesis by simp
  qed
  from succ fail oor show ?thesis by blast
qed


theorem ParabolicCurvesND_GetPeaks_bmaxVect_witness:
  "1 \<le> ParabolicCurvesND.ndof rest_nd
   \<and> length ([] :: real list) < ParabolicCurvesND.ndof rest_nd
   \<and> ParabolicCurvesND_GetPeaks (1 / 10 ^ 10) (10 ^ 300) rest_nd [] [] = Inl OutOfRange
   \<and> ParabolicCurvesND_GetPeaks (1 / 10 ^ 10) (10 ^ 300) rest_nd [] [7] = Inr ([0], [0])
   \<and> ParabolicCurvesND.ndof rest_nd \<le> length [7 :: real]"
proof -
  let ?e = "1 / 10 ^ 10 :: real" and ?inf = "10 ^ 300 :: real"
  have n: "ParabolicCurvesND.ndof rest_nd = 1" by (simp add: rest_nd_def)
  have pre: "1 \<le> ParabolicCurvesND.ndof rest_nd
      \<and> length ([] :: real list) < ParabolicCurvesND.ndof rest_nd"
    using n by simp
  have good: "\<forall>i < length ([] :: real list). i < length (ParabolicCurvesND.curves rest_nd)
            \<and> (\<exists>p. ParabolicCurve_GetPeaks ?e ?inf (ParabolicCurvesND.curves rest_nd ! i) = Inr p)"
    by simp
  from ParabolicCurvesND_GetPeaks_bmaxVect [of rest_nd "[]" ?e ?inf "[]"] pre good
  have a1: "ParabolicCurvesND_GetPeaks ?e ?inf rest_nd [] [] = Inl OutOfRange"
    by blast
  have a2: "ParabolicCurvesND_GetPeaks ?e ?inf rest_nd [] [7] = Inr ([0], [0])"
    using rest_curve_GetPeaks [of ?e ?inf 1]
    by (simp add: ParabolicCurvesND_GetPeaks_def resize_def rest_nd_def Let_def)
  from ParabolicCurvesND_GetPeaks_bmaxVect [of rest_nd "[7]" ?e ?inf "[]"] a2
  have a3: "ParabolicCurvesND.ndof rest_nd \<le> length [7 :: real]"
    by blast
  from pre a1 a2 a3 show ?thesis by blast
qed

end
